theory Spec2Isabelle
  imports Main "HOL-Library.Word"
begin

unbundle bit_operations_syntax

section \<open>The NVK queue: state synchronisation, push-buffer rebuild, submission\<close>

text \<open>
  A shallow embedding of \<^verbatim>\<open>src/nouveau/vulkan/nvk_queue.c\<close>. Every function of that
  file that the properties below speak about is a HOL function of the same name. What the
  C code does to the outside (buffer objects, the kernel transport, the diagnostic sink)
  is recorded as a list of events, in call order, that every function extends.
\<close>

subsection \<open>Data\<close>

text \<open>
  A \<^verbatim>\<open>struct nouveau_ws_bo *\<close> is an address or NULL; C compares these pointers by
  address only. The fields a pointer leads to (\<^verbatim>\<open>offset\<close>, \<^verbatim>\<open>size\<close>) are read
  through the heap \<open>bos\<close> of the device.
\<close>

type_synonym bo_handle = nat
type_synonym bo_ptr = "bo_handle option"

record nouveau_ws_bo =
  bo_offset :: "64 word"
  bo_size :: "64 word"

datatype VkResult =
    VK_SUCCESS
  | VK_ERROR_OUT_OF_HOST_MEMORY
  | VK_ERROR_OUT_OF_DEVICE_MEMORY
  | VK_ERROR_DEVICE_LOST
  | VK_ERROR_UNKNOWN

text \<open>A failed \<^verbatim>\<open>assert\<close> ends the process: the function does not return.\<close>

datatype abort = AssertionFailed

datatype nv_class = NVA0C0 | NV9097 | NVC3C0

datatype nv_mthd =
    SET_TEX_HEADER_POOL_A | SET_TEX_HEADER_POOL_B | SET_TEX_HEADER_POOL_C
  | INVALIDATE_TEXTURE_HEADER_CACHE_NO_WFI
  | SET_TEX_SAMPLER_POOL_A | SET_TEX_SAMPLER_POOL_B | SET_TEX_SAMPLER_POOL_C
  | INVALIDATE_SAMPLER_CACHE_NO_WFI
  | SET_SHADER_LOCAL_MEMORY_A | SET_SHADER_LOCAL_MEMORY_B | SET_SHADER_LOCAL_MEMORY_C
  | SET_SHADER_LOCAL_MEMORY_D | SET_SHADER_LOCAL_MEMORY_E
  | SET_SHADER_LOCAL_MEMORY_NON_THROTTLED_A | SET_SHADER_LOCAL_MEMORY_NON_THROTTLED_B
  | SET_SHADER_LOCAL_MEMORY_NON_THROTTLED_C
  | SET_SHADER_LOCAL_MEMORY_THROTTLED_A | SET_SHADER_LOCAL_MEMORY_THROTTLED_B
  | SET_SHADER_LOCAL_MEMORY_THROTTLED_C
  | SET_SHADER_SHARED_MEMORY_WINDOW_A | SET_SHADER_SHARED_MEMORY_WINDOW_B
  | SET_SHADER_LOCAL_MEMORY_WINDOW_A | SET_SHADER_LOCAL_MEMORY_WINDOW_B
  | SET_SHADER_LOCAL_MEMORY_WINDOW | SET_SHADER_SHARED_MEMORY_WINDOW

text \<open>
  Modelled from the spec: \<^verbatim>\<open>nv_push.h\<close> and the generated class headers
  (\<^verbatim>\<open>P_MTHD\<close>, \<^verbatim>\<open>P_IMMD\<close>, the \<^verbatim>\<open>P_<class>_<method>\<close> value macros,
  \<^verbatim>\<open>nv_push_init\<close>, \<^verbatim>\<open>nv_push_dw_count\<close>) are not among the sources. The spec
  describes the push buffer as an append-only sequence of fixed-width command words.
  One macro call of the source is one item here: \<open>MTHD\<close> is the header word that
  \<^verbatim>\<open>P_MTHD\<close> opens, \<open>VAL\<close> a data word appended by a value macro, \<open>IMMD\<close> an
  immediate method. Each item carries the value of the argument expression written in
  the source; packing it into the method's bit fields is the class headers' work.
\<close>

datatype push_item =
    MTHD nv_class nv_mthd
  | VAL nv_class nv_mthd "64 word"
  | IMMD nv_class nv_mthd "64 word"

type_synonym nv_push = "push_item list"

text \<open>
  \<^verbatim>\<open>struct nvk_queue_state\<close>: three resource slots and the push-buffer slot. The
  mapped pointer \<^verbatim>\<open>push.bo_map\<close> is modelled by the words it points to.
\<close>

record table_slot =
  tbl_bo :: bo_ptr
  alloc_count :: "32 word"

record slm_slot =
  slm_bo :: bo_ptr
  bytes_per_warp :: "32 word"
  bytes_per_tpc :: "32 word"

record push_slot =
  push_bo :: bo_ptr
  bo_map :: nv_push
  dw_count :: nat

record nvk_queue_state =
  images :: table_slot
  samplers :: table_slot
  slm :: slm_slot
  push :: push_slot

text \<open>
  What the functions read from \<^verbatim>\<open>struct nvk_device\<close>: the current answer of each
  resource provider (\<^verbatim>\<open>nvk_descriptor_table_get_bo_ref\<close> on \<^verbatim>\<open>dev->images\<close> and
  \<^verbatim>\<open>dev->samplers\<close>, \<^verbatim>\<open>nvk_slm_area_get_bo_ref\<close> on \<^verbatim>\<open>dev->slm\<close>), the compute
  class of the physical device, the debug flags of \<^verbatim>\<open>dev->ws_dev\<close>, and the buffer
  objects that pointers lead to.
\<close>

record nvk_device =
  dev_images :: "bo_ptr \<times> 32 word"
  dev_samplers :: "bo_ptr \<times> 32 word"
  dev_slm :: "bo_ptr \<times> 32 word \<times> 32 word"
  cls_compute :: "16 word"
  debug_flags :: "64 word"
  bos :: "bo_handle \<Rightarrow> nouveau_ws_bo"

text \<open>
  The answers of the two fallible collaborators, should the call ask them:
  the pointer \<^verbatim>\<open>nouveau_ws_bo_new_mapped\<close> returns (NULL when out of memory) and the
  result of the kernel submission.
\<close>

record answers =
  new_mapped :: bo_ptr
  drm_result :: VkResult

record nvk_queue =
  lost :: bool
  state :: nvk_queue_state

record vk_queue_submit =
  command_buffers :: "nat list"

datatype provider = Images | Samplers | Slm

datatype stream = Encoded nv_push | Words "32 word list"

datatype event =
    GetBoRef provider bo_ptr
  | BoDestroy bo_handle
  | BoNewMapped nat bo_ptr
  | BoUnmap bo_handle
  | DrmSubmit push_slot "nat list" bool
  | DrmSubmitSimple "32 word" bo_handle "bo_handle list"
  | PushPrint stream
  | CmdBufferDump nat

type_synonym trace = "event list"

subsection \<open>Collaborators\<close>

text \<open>
  Modelled from the spec: the buffer-object functions (\<^verbatim>\<open>nouveau_ws_bo_new_mapped\<close>,
  \<^verbatim>\<open>nouveau_ws_bo_unmap\<close>, \<^verbatim>\<open>nouveau_ws_bo_destroy\<close>) and the provider queries
  (\<^verbatim>\<open>nvk_descriptor_table_get_bo_ref\<close>, \<^verbatim>\<open>nvk_slm_area_get_bo_ref\<close>) are not among
  the sources; the spec treats them as external collaborators with narrow interfaces. A
  call of one of them is one event; what it answers is an input of the model.
\<close>

definition nouveau_ws_bo_destroy :: "bo_handle \<Rightarrow> trace \<Rightarrow> trace" where
  "nouveau_ws_bo_destroy b tr = tr @ [BoDestroy b]"

definition nouveau_ws_bo_unmap :: "bo_handle \<Rightarrow> trace \<Rightarrow> trace" where
  "nouveau_ws_bo_unmap b tr = tr @ [BoUnmap b]"

text \<open>\<^verbatim>\<open>if (p) nouveau_ws_bo_destroy(p);\<close>\<close>

definition destroy_if :: "bo_ptr \<Rightarrow> trace \<Rightarrow> trace" where
  "destroy_if p tr = (case p of None \<Rightarrow> tr | Some b \<Rightarrow> nouveau_ws_bo_destroy b tr)"

text \<open>
  A provider query hands back the provider's current pointer, with a reference of its
  own when the pointer is not NULL, and the sizing metadata.
\<close>

definition get_bo_ref :: "provider \<Rightarrow> bo_ptr \<Rightarrow> trace \<Rightarrow> trace" where
  "get_bo_ref pr bo tr = tr @ [GetBoRef pr bo]"

text \<open>
  Modelled from the spec: \<^verbatim>\<open>nvk_debug.h\<close> is not among the sources. The spec names
  two independent booleans, "dump-on-submit" and "sync-after-submit"; they are two
  distinct bits of the flag word.
\<close>

definition NVK_DEBUG_PUSH_DUMP :: "64 word" where
  "NVK_DEBUG_PUSH_DUMP = 1"

definition NVK_DEBUG_PUSH_SYNC :: "64 word" where
  "NVK_DEBUG_PUSH_SYNC = 2"

text \<open>
  Modelled from the spec: \<^verbatim>\<open>clc3c0.h\<close> is not among the sources; the class number
  that separates the two hardware generations.
\<close>

definition VOLTA_COMPUTE_A :: "16 word" where
  "VOLTA_COMPUTE_A = 0xC3C0"

text \<open>
  Modelled from the spec: \<^verbatim>\<open>vk_queue.h\<close> is not among the sources. The spec's queue
  has a monotonic lost flag; setting it reports the device-lost error
  (\<open>submit(queue, commandBuffers) -> Result<void, DeviceLost>\<close>).
\<close>

definition vk_queue_is_lost :: "nvk_queue \<Rightarrow> bool" where
  "vk_queue_is_lost queue = lost queue"

definition vk_queue_set_lost :: "nvk_queue \<Rightarrow> string \<Rightarrow> VkResult \<times> nvk_queue" where
  "vk_queue_set_lost queue msg = (VK_ERROR_DEVICE_LOST, queue\<lparr>lost := True\<rparr>)"

text \<open>
  Modelled from the spec: \<^verbatim>\<open>vk_log.h\<close> is not among the sources; \<^verbatim>\<open>vk_error\<close>
  reports an error code to the log and hands it back.
\<close>

definition vk_error :: "VkResult \<Rightarrow> VkResult" where
  "vk_error e = e"

subsection \<open>The push-buffer builder\<close>

text \<open>
  Modelled from the spec: the width of an item in 32-bit words (\<^verbatim>\<open>nv_push.h\<close> is
  not among the sources). A header and a data word are one word each; an immediate
  whose value fits the 13 bits of the header's data field travels inside its header,
  any other as a header followed by one data word.
\<close>

fun item_dw :: "push_item \<Rightarrow> nat" where
  "item_dw (MTHD c m) = 1"
| "item_dw (VAL c m v) = 1"
| "item_dw (IMMD c m v) = (if v AND NOT 0x1fff = 0 then 1 else 2)"

definition nv_push_dw_count :: "nv_push \<Rightarrow> nat" where
  "nv_push_dw_count p = sum_list (map item_dw p)"

text \<open>
  The items that lie within the first \<open>n\<close> words of a buffer: what a reader of
  \<^verbatim>\<open>start .. start + n\<close> sees.
\<close>

fun take_dw :: "nat \<Rightarrow> nv_push \<Rightarrow> nv_push" where
  "take_dw n [] = []"
| "take_dw n (x # xs) = (if item_dw x \<le> n then x # take_dw (n - item_dw x) xs else [])"

text \<open>
  Modelled from the spec: the class headers are not among the sources; the field value
  of \<^verbatim>\<open>.lines = LINES_ALL\<close> in the two cache invalidation methods.
\<close>

definition LINES_ALL :: "64 word" where
  "LINES_ALL = 0"

text \<open>Lines 133--151: the image descriptor table, for compute and for 3D.\<close>

definition push_images :: "nvk_device \<Rightarrow> nvk_queue_state \<Rightarrow> nv_push \<Rightarrow> nv_push" where
  "push_images dev qs p =
     (case tbl_bo (images qs) of
        None \<Rightarrow> p
      | Some b \<Rightarrow>
          p @ [MTHD NVA0C0 SET_TEX_HEADER_POOL_A,
               VAL NVA0C0 SET_TEX_HEADER_POOL_A (drop_bit 32 (bo_offset (bos dev b))),
               VAL NVA0C0 SET_TEX_HEADER_POOL_B (bo_offset (bos dev b)),
               VAL NVA0C0 SET_TEX_HEADER_POOL_C (ucast (alloc_count (images qs) - 1)),
               IMMD NVA0C0 INVALIDATE_TEXTURE_HEADER_CACHE_NO_WFI LINES_ALL,
               MTHD NV9097 SET_TEX_HEADER_POOL_A,
               VAL NV9097 SET_TEX_HEADER_POOL_A (drop_bit 32 (bo_offset (bos dev b))),
               VAL NV9097 SET_TEX_HEADER_POOL_B (bo_offset (bos dev b)),
               VAL NV9097 SET_TEX_HEADER_POOL_C (ucast (alloc_count (images qs) - 1)),
               IMMD NV9097 INVALIDATE_TEXTURE_HEADER_CACHE_NO_WFI LINES_ALL])"

text \<open>Lines 153--171: the sampler descriptor table, for compute and for 3D.\<close>

definition push_samplers :: "nvk_device \<Rightarrow> nvk_queue_state \<Rightarrow> nv_push \<Rightarrow> nv_push" where
  "push_samplers dev qs p =
     (case tbl_bo (samplers qs) of
        None \<Rightarrow> p
      | Some b \<Rightarrow>
          p @ [MTHD NVA0C0 SET_TEX_SAMPLER_POOL_A,
               VAL NVA0C0 SET_TEX_SAMPLER_POOL_A (drop_bit 32 (bo_offset (bos dev b))),
               VAL NVA0C0 SET_TEX_SAMPLER_POOL_B (bo_offset (bos dev b)),
               VAL NVA0C0 SET_TEX_SAMPLER_POOL_C (ucast (alloc_count (samplers qs) - 1)),
               IMMD NVA0C0 INVALIDATE_SAMPLER_CACHE_NO_WFI LINES_ALL,
               MTHD NV9097 SET_TEX_SAMPLER_POOL_A,
               VAL NV9097 SET_TEX_SAMPLER_POOL_A (drop_bit 32 (bo_offset (bos dev b))),
               VAL NV9097 SET_TEX_SAMPLER_POOL_B (bo_offset (bos dev b)),
               VAL NV9097 SET_TEX_SAMPLER_POOL_C (ucast (alloc_count (samplers qs) - 1)),
               IMMD NV9097 INVALIDATE_SAMPLER_CACHE_NO_WFI LINES_ALL])"

text \<open>
  Lines 173--204: the scratch (shader local) memory. The four locals are 64-bit; the
  assertion of line 178 comes before the first command of the block.
\<close>

definition push_slm :: "nvk_device \<Rightarrow> nvk_queue_state \<Rightarrow> nv_push \<Rightarrow> abort + nv_push" where
  "push_slm dev qs p =
     (case slm_bo (slm qs) of
        None \<Rightarrow> Inr p
      | Some b \<Rightarrow>
          (let slm_addr = bo_offset (bos dev b);
               slm_size = bo_size (bos dev b);
               slm_per_warp = (ucast (bytes_per_warp (slm qs)) :: 64 word);
               slm_per_tpc = (ucast (bytes_per_tpc (slm qs)) :: 64 word)
           in if slm_per_tpc AND 0x7fff \<noteq> 0 then Inl AssertionFailed
              else Inr
               (p @ [MTHD NVA0C0 SET_SHADER_LOCAL_MEMORY_A,
                     VAL NVA0C0 SET_SHADER_LOCAL_MEMORY_A (drop_bit 32 slm_addr),
                     VAL NVA0C0 SET_SHADER_LOCAL_MEMORY_B slm_addr,
                     MTHD NVA0C0 SET_SHADER_LOCAL_MEMORY_NON_THROTTLED_A,
                     VAL NVA0C0 SET_SHADER_LOCAL_MEMORY_NON_THROTTLED_A (drop_bit 32 slm_per_tpc),
                     VAL NVA0C0 SET_SHADER_LOCAL_MEMORY_NON_THROTTLED_B slm_per_tpc,
                     VAL NVA0C0 SET_SHADER_LOCAL_MEMORY_NON_THROTTLED_C 0xff]
                  @ (if cls_compute dev < VOLTA_COMPUTE_A
                     then [MTHD NVA0C0 SET_SHADER_LOCAL_MEMORY_THROTTLED_A,
                           VAL NVA0C0 SET_SHADER_LOCAL_MEMORY_THROTTLED_A (drop_bit 32 slm_per_tpc),
                           VAL NVA0C0 SET_SHADER_LOCAL_MEMORY_THROTTLED_B slm_per_tpc,
                           VAL NVA0C0 SET_SHADER_LOCAL_MEMORY_THROTTLED_C 0xff]
                     else [])
                  @ [MTHD NV9097 SET_SHADER_LOCAL_MEMORY_A,
                     VAL NV9097 SET_SHADER_LOCAL_MEMORY_A (drop_bit 32 slm_addr),
                     VAL NV9097 SET_SHADER_LOCAL_MEMORY_B slm_addr,
                     VAL NV9097 SET_SHADER_LOCAL_MEMORY_C (drop_bit 32 slm_size),
                     VAL NV9097 SET_SHADER_LOCAL_MEMORY_D slm_size,
                     VAL NV9097 SET_SHADER_LOCAL_MEMORY_E slm_per_warp])))"

text \<open>
  Lines 206--237: the memory windows, under no condition but the hardware class, and
  the 3D local-memory window last.
\<close>

definition push_windows :: "nvk_device \<Rightarrow> nv_push" where
  "push_windows dev =
     (if cls_compute dev \<ge> VOLTA_COMPUTE_A
      then [MTHD NVC3C0 SET_SHADER_SHARED_MEMORY_WINDOW_A,
            VAL NVC3C0 SET_SHADER_SHARED_MEMORY_WINDOW_A (drop_bit 32 (push_bit 24 0xfe)),
            VAL NVC3C0 SET_SHADER_SHARED_MEMORY_WINDOW_B (push_bit 24 0xfe AND 0xffffffff),
            MTHD NVC3C0 SET_SHADER_LOCAL_MEMORY_WINDOW_A,
            VAL NVC3C0 SET_SHADER_LOCAL_MEMORY_WINDOW_A (drop_bit 32 (push_bit 24 0xff)),
            VAL NVC3C0 SET_SHADER_LOCAL_MEMORY_WINDOW_B (push_bit 24 0xff AND 0xffffffff)]
      else [MTHD NVA0C0 SET_SHADER_LOCAL_MEMORY_WINDOW,
            VAL NVA0C0 SET_SHADER_LOCAL_MEMORY_WINDOW (push_bit 24 0xff),
            MTHD NVA0C0 SET_SHADER_SHARED_MEMORY_WINDOW,
            VAL NVA0C0 SET_SHADER_SHARED_MEMORY_WINDOW (push_bit 24 0xfe)])
     @ [IMMD NV9097 SET_SHADER_LOCAL_MEMORY_WINDOW (push_bit 24 0xff)]"

text \<open>Lines 129--237 as a whole: the words written into the fresh buffer.\<close>

definition encode_state :: "nvk_device \<Rightarrow> nvk_queue_state \<Rightarrow> abort + nv_push" where
  "encode_state dev qs =
     (case push_slm dev qs (push_samplers dev qs (push_images dev qs [])) of
        Inl a \<Rightarrow> Inl a
      | Inr p \<Rightarrow> Inr (p @ push_windows dev))"

subsection \<open>\<^verbatim>\<open>nvk_queue_state_update\<close>\<close>

text \<open>
  Lines 68--107: one block per slot. Each takes the queue state, the \<^verbatim>\<open>dirty\<close>
  flag and the events so far.
\<close>

definition update_images ::
  "nvk_device \<Rightarrow> nvk_queue_state \<times> bool \<times> trace \<Rightarrow> nvk_queue_state \<times> bool \<times> trace" where
  "update_images dev s =
     (case s of (qs, dirty, tr) \<Rightarrow>
      (case dev_images dev of (bo, count) \<Rightarrow>
       (let tr = get_bo_ref Images bo tr in
        if tbl_bo (images qs) \<noteq> bo \<or> alloc_count (images qs) \<noteq> count
        then (qs\<lparr>images := \<lparr>tbl_bo = bo, alloc_count = count\<rparr>\<rparr>, True,
              destroy_if (tbl_bo (images qs)) tr)
        else (qs, dirty, destroy_if bo tr))))"

definition update_samplers ::
  "nvk_device \<Rightarrow> nvk_queue_state \<times> bool \<times> trace \<Rightarrow> nvk_queue_state \<times> bool \<times> trace" where
  "update_samplers dev s =
     (case s of (qs, dirty, tr) \<Rightarrow>
      (case dev_samplers dev of (bo, count) \<Rightarrow>
       (let tr = get_bo_ref Samplers bo tr in
        if tbl_bo (samplers qs) \<noteq> bo \<or> alloc_count (samplers qs) \<noteq> count
        then (qs\<lparr>samplers := \<lparr>tbl_bo = bo, alloc_count = count\<rparr>\<rparr>, True,
              destroy_if (tbl_bo (samplers qs)) tr)
        else (qs, dirty, destroy_if bo tr))))"

definition update_slm ::
  "nvk_device \<Rightarrow> nvk_queue_state \<times> bool \<times> trace \<Rightarrow> nvk_queue_state \<times> bool \<times> trace" where
  "update_slm dev s =
     (case s of (qs, dirty, tr) \<Rightarrow>
      (case dev_slm dev of (bo, per_warp, per_tpc) \<Rightarrow>
       (let tr = get_bo_ref Slm bo tr in
        if slm_bo (slm qs) \<noteq> bo \<or> bytes_per_warp (slm qs) \<noteq> per_warp \<or>
           bytes_per_tpc (slm qs) \<noteq> per_tpc
        then (qs\<lparr>slm := \<lparr>slm_bo = bo, bytes_per_warp = per_warp, bytes_per_tpc = per_tpc\<rparr>\<rparr>,
              True, destroy_if (slm_bo (slm qs)) tr)
        else (qs, dirty, destroy_if bo tr))))"

text \<open>Lines 66--107: \<^verbatim>\<open>dirty\<close> starts false and the three blocks run in order.\<close>

definition sync_slots ::
  "nvk_device \<Rightarrow> nvk_queue_state \<Rightarrow> trace \<Rightarrow> nvk_queue_state \<times> bool \<times> trace" where
  "sync_slots dev qs tr = update_slm dev (update_samplers dev (update_images dev (qs, False, tr)))"

text \<open>
  The whole function. \<open>alloc\<close> is what \<^verbatim>\<open>nouveau_ws_bo_new_mapped\<close> returns if the
  function gets as far as calling it; the request is for \<open>256 * 4\<close> bytes.
\<close>

definition nvk_queue_state_update ::
  "nvk_device \<Rightarrow> bo_ptr \<Rightarrow> nvk_queue_state \<Rightarrow> trace \<Rightarrow>
     abort + (VkResult \<times> nvk_queue_state \<times> trace)" where
  "nvk_queue_state_update dev alloc qs0 tr0 =
     (case sync_slots dev qs0 tr0 of (qs, dirty, tr) \<Rightarrow>
      if \<not> dirty then Inr (VK_SUCCESS, qs, tr)
      else
       (let tr = tr @ [BoNewMapped (256 * 4) alloc] in
        case alloc of
          None \<Rightarrow> Inr (vk_error VK_ERROR_OUT_OF_DEVICE_MEMORY, qs, tr)
        | Some new_bo \<Rightarrow>
           (case encode_state dev qs of
              Inl a \<Rightarrow> Inl a
            | Inr p \<Rightarrow>
               (let tr = (case push_bo (push qs) of
                            None \<Rightarrow> tr
                          | Some old \<Rightarrow> nouveau_ws_bo_destroy old (nouveau_ws_bo_unmap old tr))
                in Inr (VK_SUCCESS,
                        qs\<lparr>push := \<lparr>push_bo = Some new_bo, bo_map = p,
                                    dw_count = nv_push_dw_count p\<rparr>\<rparr>,
                        tr)))))"

subsection \<open>Submission\<close>

text \<open>\<^verbatim>\<open>nvk_queue_state_dump_push\<close>: the first \<^verbatim>\<open>dw_count\<close> words of the mapping.\<close>

definition nvk_queue_state_dump_push :: "nvk_queue_state \<Rightarrow> trace \<Rightarrow> trace" where
  "nvk_queue_state_dump_push qs tr =
     tr @ [PushPrint (Encoded (take_dw (dw_count (push qs)) (bo_map (push qs))))]"

text \<open>The loop of lines 276--281 over the submitted command buffers.\<close>

fun nvk_cmd_buffers_dump :: "nat list \<Rightarrow> trace \<Rightarrow> trace" where
  "nvk_cmd_buffers_dump [] tr = tr"
| "nvk_cmd_buffers_dump (cmd # cmds) tr = nvk_cmd_buffers_dump cmds (tr @ [CmdBufferDump cmd])"

definition nvk_queue_submit ::
  "nvk_device \<Rightarrow> answers \<Rightarrow> vk_queue_submit \<Rightarrow> nvk_queue \<Rightarrow> trace \<Rightarrow>
     abort + (VkResult \<times> nvk_queue \<times> trace)" where
  "nvk_queue_submit dev env submit queue tr0 =
     (if vk_queue_is_lost queue then Inr (VK_ERROR_DEVICE_LOST, queue, tr0)
      else
       (case nvk_queue_state_update dev (new_mapped env) (state queue) tr0 of
          Inl a \<Rightarrow> Inl a
        | Inr (result, qs, tr) \<Rightarrow>
           (let queue = queue\<lparr>state := qs\<rparr> in
            if result \<noteq> VK_SUCCESS
            then (case vk_queue_set_lost queue ''Failed to update queue base pointers pushbuf''
                  of (r, queue) \<Rightarrow> Inr (r, queue, tr))
            else
             (let sync = (debug_flags dev AND NVK_DEBUG_PUSH_SYNC \<noteq> 0);
                  tr = tr @ [DrmSubmit (push qs) (command_buffers submit) sync];
                  result = drm_result env;
                  tr = (if (sync \<and> result \<noteq> VK_SUCCESS) \<or>
                           debug_flags dev AND NVK_DEBUG_PUSH_DUMP \<noteq> 0
                        then nvk_cmd_buffers_dump (command_buffers submit)
                               (nvk_queue_state_dump_push qs tr)
                        else tr)
              in if result \<noteq> VK_SUCCESS
                 then (case vk_queue_set_lost queue ''Submit failed''
                       of (r, queue) \<Rightarrow> Inr (r, queue, tr))
                 else Inr (VK_SUCCESS, queue, tr)))))"

text \<open>
  \<^verbatim>\<open>nvk_queue_submit_simple\<close>. The byte count \<^verbatim>\<open>dw_count * 4\<close> is computed in 32
  bits; the dump shows the caller's words \<^verbatim>\<open>dw[0 .. dw_count)\<close>.
\<close>

definition nvk_queue_submit_simple ::
  "nvk_device \<Rightarrow> answers \<Rightarrow> 32 word \<Rightarrow> 32 word list \<Rightarrow> bo_handle list \<Rightarrow> nvk_queue \<Rightarrow> trace \<Rightarrow>
     VkResult \<times> nvk_queue \<times> trace" where
  "nvk_queue_submit_simple dev env n dw extra_bos queue tr0 =
     (if vk_queue_is_lost queue then (VK_ERROR_DEVICE_LOST, queue, tr0)
      else
       (let tr = tr0 @ [BoNewMapped (unat (n * 4)) (new_mapped env)] in
        case new_mapped env of
          None \<Rightarrow> (vk_error VK_ERROR_OUT_OF_DEVICE_MEMORY, queue, tr)
        | Some new_bo \<Rightarrow>
           (let tr = tr @ [DrmSubmitSimple n new_bo extra_bos];
                result = drm_result env;
                debug_sync = (debug_flags dev AND NVK_DEBUG_PUSH_SYNC \<noteq> 0);
                tr = (if (debug_sync \<and> result \<noteq> VK_SUCCESS) \<or>
                         debug_flags dev AND NVK_DEBUG_PUSH_DUMP \<noteq> 0
                      then tr @ [PushPrint (Words (take (unat n) dw))]
                      else tr);
                tr = nouveau_ws_bo_destroy new_bo (nouveau_ws_bo_unmap new_bo tr)
            in if result \<noteq> VK_SUCCESS
               then (case vk_queue_set_lost queue ''Submit failed''
                     of (r, queue) \<Rightarrow> (r, queue, tr))
               else (VK_SUCCESS, queue, tr))))"

subsection \<open>\<^verbatim>\<open>nvk_queue_state_init\<close> and callers\<close>

text \<open>\<^verbatim>\<open>memset(qs, 0, sizeof *qs)\<close>: every pointer NULL, every count zero.\<close>

definition nvk_queue_state_init :: nvk_queue_state where
  "nvk_queue_state_init =
     \<lparr>images = \<lparr>tbl_bo = None, alloc_count = 0\<rparr>,
      samplers = \<lparr>tbl_bo = None, alloc_count = 0\<rparr>,
      slm = \<lparr>slm_bo = None, bytes_per_warp = 0, bytes_per_tpc = 0\<rparr>,
      push = \<lparr>push_bo = None, bo_map = [], dw_count = 0\<rparr>\<rparr>"

text \<open>
  A caller's calls on one queue, one after the other; the device (and with it what the
  providers answer) may be another at every call. An abort ends the run.
\<close>

datatype call =
    Submit nvk_device answers vk_queue_submit
  | SubmitSimple nvk_device answers "32 word" "32 word list" "bo_handle list"

fun run_call :: "call \<Rightarrow> nvk_queue \<Rightarrow> trace \<Rightarrow> abort + (VkResult \<times> nvk_queue \<times> trace)" where
  "run_call (Submit dev env submit) queue tr = nvk_queue_submit dev env submit queue tr"
| "run_call (SubmitSimple dev env n dw extra_bos) queue tr =
     Inr (nvk_queue_submit_simple dev env n dw extra_bos queue tr)"

fun run_calls ::
  "call list \<Rightarrow> nvk_queue \<Rightarrow> trace \<Rightarrow> abort + (VkResult list \<times> nvk_queue \<times> trace)" where
  "run_calls [] queue tr = Inr ([], queue, tr)"
| "run_calls (c # cs) queue tr =
     (case run_call c queue tr of
        Inl a \<Rightarrow> Inl a
      | Inr (r, queue', tr') \<Rightarrow>
         (case run_calls cs queue' tr' of
            Inl a \<Rightarrow> Inl a
          | Inr (rs, queue'', tr'') \<Rightarrow> Inr (r # rs, queue'', tr'')))"

subsection \<open>Vocabulary of the properties\<close>

text \<open>
  A slot differs when the provider's pointer is not the cached pointer or the provider's
  sizing metadata is not the cached metadata.
\<close>

definition images_differ :: "nvk_device \<Rightarrow> nvk_queue_state \<Rightarrow> bool" where
  "images_differ dev qs =
     (fst (dev_images dev) \<noteq> tbl_bo (images qs) \<or> snd (dev_images dev) \<noteq> alloc_count (images qs))"

definition samplers_differ :: "nvk_device \<Rightarrow> nvk_queue_state \<Rightarrow> bool" where
  "samplers_differ dev qs =
     (fst (dev_samplers dev) \<noteq> tbl_bo (samplers qs) \<or>
      snd (dev_samplers dev) \<noteq> alloc_count (samplers qs))"

definition slm_differ :: "nvk_device \<Rightarrow> nvk_queue_state \<Rightarrow> bool" where
  "slm_differ dev qs =
     (fst (dev_slm dev) \<noteq> slm_bo (slm qs) \<or>
      fst (snd (dev_slm dev)) \<noteq> bytes_per_warp (slm qs) \<or>
      snd (snd (dev_slm dev)) \<noteq> bytes_per_tpc (slm qs))"

definition slots_differ :: "nvk_device \<Rightarrow> nvk_queue_state \<Rightarrow> bool" where
  "slots_differ dev qs = (images_differ dev qs \<or> samplers_differ dev qs \<or> slm_differ dev qs)"

text \<open>The queue state with the three resource slots holding what the providers answer.\<close>

definition provider_slots :: "nvk_device \<Rightarrow> nvk_queue_state \<Rightarrow> nvk_queue_state" where
  "provider_slots dev qs =
     qs\<lparr>images := \<lparr>tbl_bo = fst (dev_images dev), alloc_count = snd (dev_images dev)\<rparr>,
        samplers := \<lparr>tbl_bo = fst (dev_samplers dev), alloc_count = snd (dev_samplers dev)\<rparr>,
        slm := \<lparr>slm_bo = fst (dev_slm dev), bytes_per_warp = fst (snd (dev_slm dev)),
                bytes_per_tpc = snd (snd (dev_slm dev))\<rparr>\<rparr>"

text \<open>
  The events of one slot's block: the query, then one release, of the cached reference
  when the slot differs and of the queried duplicate when it does not (none for NULL).
\<close>

definition slot_events :: "provider \<Rightarrow> bo_ptr \<Rightarrow> bo_ptr \<Rightarrow> bool \<Rightarrow> trace" where
  "slot_events pr new old differ =
     GetBoRef pr new #
       (case (if differ then old else new) of None \<Rightarrow> [] | Some b \<Rightarrow> [BoDestroy b])"

definition sync_events :: "nvk_device \<Rightarrow> nvk_queue_state \<Rightarrow> trace" where
  "sync_events dev qs =
     slot_events Images (fst (dev_images dev)) (tbl_bo (images qs)) (images_differ dev qs) @
     slot_events Samplers (fst (dev_samplers dev)) (tbl_bo (samplers qs)) (samplers_differ dev qs) @
     slot_events Slm (fst (dev_slm dev)) (slm_bo (slm qs)) (slm_differ dev qs)"

text \<open>The events of retiring the previous push buffer.\<close>

definition push_events :: "bo_ptr \<Rightarrow> trace" where
  "push_events old = (case old of None \<Rightarrow> [] | Some b \<Rightarrow> [BoUnmap b, BoDestroy b])"

text \<open>
  Reference accounting: a query that answers a buffer object and a successful allocation
  give the caller one reference to it, a destroy takes one away. \<open>held\<close> counts the
  slots of a queue state that point to a buffer object.
\<close>

fun ref_delta :: "bo_handle \<Rightarrow> event \<Rightarrow> int" where
  "ref_delta h (GetBoRef pr p) = (if p = Some h then 1 else 0)"
| "ref_delta h (BoNewMapped n p) = (if p = Some h then 1 else 0)"
| "ref_delta h (BoDestroy b) = (if b = h then - 1 else 0)"
| "ref_delta h (BoUnmap b) = 0"
| "ref_delta h (DrmSubmit ps cmds sync) = 0"
| "ref_delta h (DrmSubmitSimple n b extra) = 0"
| "ref_delta h (PushPrint s) = 0"
| "ref_delta h (CmdBufferDump c) = 0"

definition ref_balance :: "bo_handle \<Rightarrow> trace \<Rightarrow> int" where
  "ref_balance h tr = sum_list (map (ref_delta h) tr)"

definition held :: "bo_handle \<Rightarrow> nvk_queue_state \<Rightarrow> int" where
  "held h qs =
     (if tbl_bo (images qs) = Some h then 1 else 0) +
     (if tbl_bo (samplers qs) = Some h then 1 else 0) +
     (if slm_bo (slm qs) = Some h then 1 else 0) +
     (if push_bo (push qs) = Some h then 1 else 0)"

fun is_alloc_event :: "event \<Rightarrow> bool" where
  "is_alloc_event (BoNewMapped n p) = True"
| "is_alloc_event (GetBoRef pr p) = False"
| "is_alloc_event (BoDestroy b) = False"
| "is_alloc_event (BoUnmap b) = False"
| "is_alloc_event (DrmSubmit ps cmds sync) = False"
| "is_alloc_event (DrmSubmitSimple n b extra) = False"
| "is_alloc_event (PushPrint s) = False"
| "is_alloc_event (CmdBufferDump c) = False"

fun is_dump_event :: "event \<Rightarrow> bool" where
  "is_dump_event (PushPrint s) = True"
| "is_dump_event (CmdBufferDump c) = True"
| "is_dump_event (BoNewMapped n p) = False"
| "is_dump_event (GetBoRef pr p) = False"
| "is_dump_event (BoDestroy b) = False"
| "is_dump_event (BoUnmap b) = False"
| "is_dump_event (DrmSubmit ps cmds sync) = False"
| "is_dump_event (DrmSubmitSimple n b extra) = False"

text \<open>The method an item belongs to, and the two families of methods of the scratch memory.\<close>

fun item_mthd :: "push_item \<Rightarrow> nv_mthd" where
  "item_mthd (MTHD c m) = m"
| "item_mthd (VAL c m v) = m"
| "item_mthd (IMMD c m v) = m"

definition is_window :: "push_item \<Rightarrow> bool" where
  "is_window x =
     (item_mthd x \<in> {SET_SHADER_SHARED_MEMORY_WINDOW_A, SET_SHADER_SHARED_MEMORY_WINDOW_B,
                      SET_SHADER_LOCAL_MEMORY_WINDOW_A, SET_SHADER_LOCAL_MEMORY_WINDOW_B,
                      SET_SHADER_LOCAL_MEMORY_WINDOW, SET_SHADER_SHARED_MEMORY_WINDOW})"

definition is_shared_window :: "push_item \<Rightarrow> bool" where
  "is_shared_window x =
     (item_mthd x \<in> {SET_SHADER_SHARED_MEMORY_WINDOW_A, SET_SHADER_SHARED_MEMORY_WINDOW_B,
                      SET_SHADER_SHARED_MEMORY_WINDOW})"

definition is_local_window :: "push_item \<Rightarrow> bool" where
  "is_local_window x =
     (item_mthd x \<in> {SET_SHADER_LOCAL_MEMORY_WINDOW_A, SET_SHADER_LOCAL_MEMORY_WINDOW_B,
                      SET_SHADER_LOCAL_MEMORY_WINDOW})"

definition is_slm_alloc :: "push_item \<Rightarrow> bool" where
  "is_slm_alloc x =
     (item_mthd x \<in> {SET_SHADER_LOCAL_MEMORY_A, SET_SHADER_LOCAL_MEMORY_B,
                      SET_SHADER_LOCAL_MEMORY_C, SET_SHADER_LOCAL_MEMORY_D,
                      SET_SHADER_LOCAL_MEMORY_E,
                      SET_SHADER_LOCAL_MEMORY_NON_THROTTLED_A,
                      SET_SHADER_LOCAL_MEMORY_NON_THROTTLED_B,
                      SET_SHADER_LOCAL_MEMORY_NON_THROTTLED_C,
                      SET_SHADER_LOCAL_MEMORY_THROTTLED_A,
                      SET_SHADER_LOCAL_MEMORY_THROTTLED_B,
                      SET_SHADER_LOCAL_MEMORY_THROTTLED_C})"

text \<open>
  The data model's invariant on the push-buffer slot: its words are the encoding of the
  three resource slots as they are now.
\<close>

definition push_encodes :: "nvk_device \<Rightarrow> nvk_queue_state \<Rightarrow> bool" where
  "push_encodes dev qs =
     (encode_state dev qs = Inr (bo_map (push qs)) \<and>
      dw_count (push qs) = nv_push_dw_count (bo_map (push qs)))"

text \<open>
  The values a push buffer carries for the three slots: the data words of one method of
  one class, in the order they stand in the buffer; and, read off a queue state, what
  the encoder writes for a slot whose buffer object is present.
\<close>

fun item_val :: "nv_class \<Rightarrow> nv_mthd \<Rightarrow> push_item \<Rightarrow> 64 word list" where
  "item_val c m (VAL c' m' v) = (if c' = c \<and> m' = m then [v] else [])"
| "item_val c m (MTHD c' m') = []"
| "item_val c m (IMMD c' m' v) = []"

fun vals :: "nv_class \<Rightarrow> nv_mthd \<Rightarrow> nv_push \<Rightarrow> 64 word list" where
  "vals c m [] = []"
| "vals c m (x # xs) = item_val c m x @ vals c m xs"

definition images_view :: "nvk_device \<Rightarrow> nvk_queue_state \<Rightarrow> (64 word \<times> 32 word) option" where
  "images_view dev qs =
     (case tbl_bo (images qs) of
        None \<Rightarrow> None
      | Some b \<Rightarrow> Some (bo_offset (bos dev b), alloc_count (images qs)))"

definition samplers_view :: "nvk_device \<Rightarrow> nvk_queue_state \<Rightarrow> (64 word \<times> 32 word) option" where
  "samplers_view dev qs =
     (case tbl_bo (samplers qs) of
        None \<Rightarrow> None
      | Some b \<Rightarrow> Some (bo_offset (bos dev b), alloc_count (samplers qs)))"

definition slm_view ::
  "nvk_device \<Rightarrow> nvk_queue_state \<Rightarrow> (64 word \<times> 64 word \<times> 32 word \<times> 32 word) option" where
  "slm_view dev qs =
     (case slm_bo (slm qs) of
        None \<Rightarrow> None
      | Some b \<Rightarrow> Some (bo_offset (bos dev b), bo_size (bos dev b),
                        bytes_per_warp (slm qs), bytes_per_tpc (slm qs)))"

definition encoded_values ::
  "nvk_device \<Rightarrow> nvk_queue_state \<Rightarrow>
     (64 word \<times> 32 word) option \<times> (64 word \<times> 32 word) option \<times>
     (64 word \<times> 64 word \<times> 32 word \<times> 32 word) option" where
  "encoded_values dev qs = (images_view dev qs, samplers_view dev qs, slm_view dev qs)"

text \<open>When the diagnostic sink is written to, as lines 272--273 and 440--441 decide.\<close>

definition dump_wanted :: "nvk_device \<Rightarrow> VkResult \<Rightarrow> bool" where
  "dump_wanted dev result =
     ((debug_flags dev AND NVK_DEBUG_PUSH_SYNC \<noteq> 0 \<and> result \<noteq> VK_SUCCESS) \<or>
      debug_flags dev AND NVK_DEBUG_PUSH_DUMP \<noteq> 0)"

subsection \<open>Sample inputs\<close>

text \<open>
  Buffer object \<open>h\<close> lies at address \<open>h * 0x10000\<close> and is \<open>0x10000\<close> bytes long.
\<close>

definition bo_heap :: "bo_handle \<Rightarrow> nouveau_ws_bo" where
  "bo_heap h = \<lparr>bo_offset = push_bit 16 (of_nat h), bo_size = 0x10000\<rparr>"

text \<open>
  A pre-Volta device whose image table is buffer object 1 with 10 entries, sampler
  table buffer object 2 with 4 entries, scratch area buffer object 3 with \<open>0x8000\<close>
  bytes per TPC; no debug flag.
\<close>

definition dev_kepler :: nvk_device where
  "dev_kepler =
     \<lparr>dev_images = (Some 1, 10), dev_samplers = (Some 2, 4), dev_slm = (Some 3, 0x100, 0x8000),
      cls_compute = 0xA0C0, debug_flags = 0, bos = bo_heap\<rparr>"

text \<open>The same after the image table has grown to 20 entries in place.\<close>

definition dev_grown :: nvk_device where
  "dev_grown = dev_kepler\<lparr>dev_images := (Some 1, 20)\<rparr>"

text \<open>A device whose scratch area reports a per-TPC size that is not aligned.\<close>

definition dev_misaligned :: nvk_device where
  "dev_misaligned = dev_kepler\<lparr>dev_slm := (Some 3, 0x100, 0x8001)\<rparr>"

text \<open>The same device with the sync flag, and with the dump flag.\<close>

definition dev_sync :: nvk_device where
  "dev_sync = dev_kepler\<lparr>debug_flags := NVK_DEBUG_PUSH_SYNC\<rparr>"

definition dev_dump :: nvk_device where
  "dev_dump = dev_kepler\<lparr>debug_flags := NVK_DEBUG_PUSH_DUMP\<rparr>"

definition queue_init :: nvk_queue where
  "queue_init = \<lparr>lost = False, state = nvk_queue_state_init\<rparr>"

definition queue_lost :: nvk_queue where
  "queue_lost = \<lparr>lost = True, state = nvk_queue_state_init\<rparr>"

definition env_ok :: answers where
  "env_ok = \<lparr>new_mapped = Some 7, drm_result = VK_SUCCESS\<rparr>"

definition env_oom :: answers where
  "env_oom = \<lparr>new_mapped = None, drm_result = VK_SUCCESS\<rparr>"

definition env_drm_fails :: answers where
  "env_drm_fails = \<lparr>new_mapped = Some 7, drm_result = VK_ERROR_UNKNOWN\<rparr>"

text \<open>
  The first update of a fresh queue on \<open>dev_kepler\<close>, the allocation answering buffer
  object 7: the words encoded, the queue state and the events it leaves behind.
\<close>

definition push_kepler :: nv_push where
  "push_kepler =
     (case encode_state dev_kepler (provider_slots dev_kepler nvk_queue_state_init) of
        Inr p \<Rightarrow> p
      | Inl a \<Rightarrow> [])"

definition qs_kepler :: nvk_queue_state where
  "qs_kepler =
     (provider_slots dev_kepler nvk_queue_state_init)
       \<lparr>push := \<lparr>push_bo = Some 7, bo_map = push_kepler, dw_count = nv_push_dw_count push_kepler\<rparr>\<rparr>"

definition tr_kepler :: trace where
  "tr_kepler =
     [GetBoRef Images (Some 1), GetBoRef Samplers (Some 2), GetBoRef Slm (Some 3),
      BoNewMapped 1024 (Some 7)]"

text \<open>
  A Volta device with an image table and nothing else, the words of its first update and
  the queue state it leaves.
\<close>

definition dev_volta :: nvk_device where
  "dev_volta =
     \<lparr>dev_images = (Some 1, 10), dev_samplers = (None, 0), dev_slm = (None, 0, 0),
      cls_compute = 0xC3C0, debug_flags = 0, bos = bo_heap\<rparr>"

definition push_volta :: nv_push where
  "push_volta =
     [MTHD NVA0C0 SET_TEX_HEADER_POOL_A,
      VAL NVA0C0 SET_TEX_HEADER_POOL_A 0,
      VAL NVA0C0 SET_TEX_HEADER_POOL_B 0x10000,
      VAL NVA0C0 SET_TEX_HEADER_POOL_C 9,
      IMMD NVA0C0 INVALIDATE_TEXTURE_HEADER_CACHE_NO_WFI 0,
      MTHD NV9097 SET_TEX_HEADER_POOL_A,
      VAL NV9097 SET_TEX_HEADER_POOL_A 0,
      VAL NV9097 SET_TEX_HEADER_POOL_B 0x10000,
      VAL NV9097 SET_TEX_HEADER_POOL_C 9,
      IMMD NV9097 INVALIDATE_TEXTURE_HEADER_CACHE_NO_WFI 0,
      MTHD NVC3C0 SET_SHADER_SHARED_MEMORY_WINDOW_A,
      VAL NVC3C0 SET_SHADER_SHARED_MEMORY_WINDOW_A 0,
      VAL NVC3C0 SET_SHADER_SHARED_MEMORY_WINDOW_B 0xfe000000,
      MTHD NVC3C0 SET_SHADER_LOCAL_MEMORY_WINDOW_A,
      VAL NVC3C0 SET_SHADER_LOCAL_MEMORY_WINDOW_A 0,
      VAL NVC3C0 SET_SHADER_LOCAL_MEMORY_WINDOW_B 0xff000000,
      IMMD NV9097 SET_SHADER_LOCAL_MEMORY_WINDOW 0xff000000]"

definition qs_volta :: nvk_queue_state where
  "qs_volta =
     \<lparr>images = \<lparr>tbl_bo = Some 1, alloc_count = 10\<rparr>,
      samplers = \<lparr>tbl_bo = None, alloc_count = 0\<rparr>,
      slm = \<lparr>slm_bo = None, bytes_per_warp = 0, bytes_per_tpc = 0\<rparr>,
      push = \<lparr>push_bo = Some 7, bo_map = push_volta, dw_count = 18\<rparr>\<rparr>"

text \<open>
  A queue with no buffer object in any slot whose push buffer holds the pre-Volta
  windows, and a device whose absent image table reports another entry count.
\<close>

definition dev_counts :: nvk_device where
  "dev_counts =
     \<lparr>dev_images = (None, 6), dev_samplers = (None, 0), dev_slm = (None, 0, 0),
      cls_compute = 0xA0C0, debug_flags = 0, bos = bo_heap\<rparr>"

definition qs_counts :: nvk_queue_state where
  "qs_counts =
     \<lparr>images = \<lparr>tbl_bo = None, alloc_count = 5\<rparr>,
      samplers = \<lparr>tbl_bo = None, alloc_count = 0\<rparr>,
      slm = \<lparr>slm_bo = None, bytes_per_warp = 0, bytes_per_tpc = 0\<rparr>,
      push = \<lparr>push_bo = Some 7,
              bo_map = [MTHD NVA0C0 SET_SHADER_LOCAL_MEMORY_WINDOW,
                        VAL NVA0C0 SET_SHADER_LOCAL_MEMORY_WINDOW 0xff000000,
                        MTHD NVA0C0 SET_SHADER_SHARED_MEMORY_WINDOW,
                        VAL NVA0C0 SET_SHADER_SHARED_MEMORY_WINDOW 0xfe000000,
                        IMMD NV9097 SET_SHADER_LOCAL_MEMORY_WINDOW 0xff000000],
              dw_count = 6\<rparr>\<rparr>"

section \<open>Properties\<close>

subsection \<open>What the slot blocks and the whole update compute\<close>

lemma update_images_eq:
  "update_images dev (qs, dirty, tr) =
     (qs\<lparr>images := \<lparr>tbl_bo = fst (dev_images dev), alloc_count = snd (dev_images dev)\<rparr>\<rparr>,
      dirty \<or> images_differ dev qs,
      tr @ slot_events Images (fst (dev_images dev)) (tbl_bo (images qs)) (images_differ dev qs))"
  by (cases "dev_images dev")
     (auto simp: update_images_def images_differ_def slot_events_def get_bo_ref_def
        destroy_if_def nouveau_ws_bo_destroy_def split: option.splits)

lemma update_samplers_eq:
  "update_samplers dev (qs, dirty, tr) =
     (qs\<lparr>samplers := \<lparr>tbl_bo = fst (dev_samplers dev), alloc_count = snd (dev_samplers dev)\<rparr>\<rparr>,
      dirty \<or> samplers_differ dev qs,
      tr @ slot_events Samplers (fst (dev_samplers dev)) (tbl_bo (samplers qs))
             (samplers_differ dev qs))"
  by (cases "dev_samplers dev")
     (auto simp: update_samplers_def samplers_differ_def slot_events_def get_bo_ref_def
        destroy_if_def nouveau_ws_bo_destroy_def split: option.splits)

lemma update_slm_eq:
  "update_slm dev (qs, dirty, tr) =
     (qs\<lparr>slm := \<lparr>slm_bo = fst (dev_slm dev), bytes_per_warp = fst (snd (dev_slm dev)),
                bytes_per_tpc = snd (snd (dev_slm dev))\<rparr>\<rparr>,
      dirty \<or> slm_differ dev qs,
      tr @ slot_events Slm (fst (dev_slm dev)) (slm_bo (slm qs)) (slm_differ dev qs))"
  by (cases "dev_slm dev")
     (auto simp: update_slm_def slm_differ_def slot_events_def get_bo_ref_def
        destroy_if_def nouveau_ws_bo_destroy_def split: option.splits)

lemma sync_slots_eq:
  "sync_slots dev qs tr = (provider_slots dev qs, slots_differ dev qs, tr @ sync_events dev qs)"
  by (simp add: sync_slots_def update_images_eq update_samplers_eq update_slm_eq
        provider_slots_def slots_differ_def sync_events_def samplers_differ_def slm_differ_def)

lemma provider_slots_same: "\<not> slots_differ dev qs \<Longrightarrow> provider_slots dev qs = qs"
  by (simp add: slots_differ_def images_differ_def samplers_differ_def slm_differ_def
        provider_slots_def)

lemma provider_slots_settled: "\<not> slots_differ dev (provider_slots dev qs)"
  by (simp add: slots_differ_def images_differ_def samplers_differ_def slm_differ_def
        provider_slots_def)

lemma slots_differ_push: "slots_differ dev (qs\<lparr>push := x\<rparr>) = slots_differ dev qs"
  by (simp add: slots_differ_def images_differ_def samplers_differ_def slm_differ_def)

lemma push_of_provider_slots: "push (provider_slots dev qs) = push qs"
  by (simp add: provider_slots_def)

lemma update_clean:
  "\<not> slots_differ dev qs \<Longrightarrow>
   nvk_queue_state_update dev alloc qs tr = Inr (VK_SUCCESS, qs, tr @ sync_events dev qs)"
  by (simp add: nvk_queue_state_update_def sync_slots_eq provider_slots_same)

lemma update_oom:
  "slots_differ dev qs \<Longrightarrow>
   nvk_queue_state_update dev None qs tr =
     Inr (VK_ERROR_OUT_OF_DEVICE_MEMORY, provider_slots dev qs,
          tr @ sync_events dev qs @ [BoNewMapped 1024 None])"
  by (simp add: nvk_queue_state_update_def sync_slots_eq vk_error_def)

lemma update_abort:
  "slots_differ dev qs \<Longrightarrow> encode_state dev (provider_slots dev qs) = Inl a \<Longrightarrow>
   nvk_queue_state_update dev (Some b) qs tr = Inl a"
  by (simp add: nvk_queue_state_update_def sync_slots_eq)

lemma update_rebuild:
  "slots_differ dev qs \<Longrightarrow> encode_state dev (provider_slots dev qs) = Inr p \<Longrightarrow>
   nvk_queue_state_update dev (Some b) qs tr =
     Inr (VK_SUCCESS,
          (provider_slots dev qs)\<lparr>push := \<lparr>push_bo = Some b, bo_map = p,
                                            dw_count = nv_push_dw_count p\<rparr>\<rparr>,
          tr @ sync_events dev qs @ [BoNewMapped 1024 (Some b)] @ push_events (push_bo (push qs)))"
  by (simp add: nvk_queue_state_update_def sync_slots_eq push_of_provider_slots push_events_def
        nouveau_ws_bo_destroy_def nouveau_ws_bo_unmap_def split: option.splits)

lemma cmd_buffers_dump_eq: "nvk_cmd_buffers_dump cmds tr = tr @ map CmdBufferDump cmds"
  by (induction cmds arbitrary: tr) simp_all

lemma submit_lost:
  "lost queue \<Longrightarrow>
   nvk_queue_submit dev env submit queue tr = Inr (VK_ERROR_DEVICE_LOST, queue, tr)"
  by (simp add: nvk_queue_submit_def vk_queue_is_lost_def)

lemma submit_simple_lost:
  "lost queue \<Longrightarrow>
   nvk_queue_submit_simple dev env n dw extra_bos queue tr = (VK_ERROR_DEVICE_LOST, queue, tr)"
  by (simp add: nvk_queue_submit_simple_def vk_queue_is_lost_def)

lemma run_calls_lost:
  "lost queue \<Longrightarrow>
   run_calls cs queue tr = Inr (replicate (length cs) VK_ERROR_DEVICE_LOST, queue, tr)"
proof (induction cs)
  case Nil
  show ?case by simp
next
  case (Cons c cs)
  have "run_call c queue tr = Inr (VK_ERROR_DEVICE_LOST, queue, tr)"
    using Cons.prems by (cases c) (simp_all add: submit_lost submit_simple_lost)
  with Cons show ?case by simp
qed

subsection \<open>Facts about the encoder\<close>

lemma dw_append: "nv_push_dw_count (p @ q) = nv_push_dw_count p + nv_push_dw_count q"
  by (simp add: nv_push_dw_count_def)

lemma take_dw_all: "take_dw (nv_push_dw_count p) p = p"
  by (induction p) (simp_all add: nv_push_dw_count_def)

lemma dw_images: "nv_push_dw_count (push_images dev qs p) \<le> nv_push_dw_count p + 10"
  by (simp add: push_images_def nv_push_dw_count_def LINES_ALL_def split: option.splits)

lemma dw_samplers: "nv_push_dw_count (push_samplers dev qs p) \<le> nv_push_dw_count p + 10"
  by (simp add: push_samplers_def nv_push_dw_count_def LINES_ALL_def split: option.splits)

lemma dw_slm:
  "push_slm dev qs p = Inr p' \<Longrightarrow>
   nv_push_dw_count p' \<le> nv_push_dw_count p + (if cls_compute dev < VOLTA_COMPUTE_A then 17 else 13)"
  by (auto simp add: push_slm_def nv_push_dw_count_def Let_def split: option.splits if_splits)

lemma dw_windows:
  "nv_push_dw_count (push_windows dev) = (if cls_compute dev < VOLTA_COMPUTE_A then 6 else 8)"
  by (simp add: push_windows_def nv_push_dw_count_def not_le[symmetric])

lemma dw_encode_state:
  assumes "encode_state dev qs = Inr p"
  shows "nv_push_dw_count p \<le> 43"
proof -
  from assms obtain p' where
    s: "push_slm dev qs (push_samplers dev qs (push_images dev qs [])) = Inr p'"
    and p: "p = p' @ push_windows dev"
    by (auto simp: encode_state_def split: sum.splits)
  have "nv_push_dw_count (push_images dev qs []) \<le> 10"
    using dw_images [of dev qs "[]"] by (simp add: nv_push_dw_count_def)
  then have "nv_push_dw_count (push_samplers dev qs (push_images dev qs [])) \<le> 20"
    using dw_samplers [of dev qs "push_images dev qs []"] by simp
  then show ?thesis
    using dw_slm [OF s] dw_windows [of dev] by (simp add: p dw_append split: if_splits)
qed

lemma encode_state_Inr_D:
  "encode_state dev qs = Inr p \<Longrightarrow>
   \<exists>p'. push_slm dev qs (push_samplers dev qs (push_images dev qs [])) = Inr p' \<and>
        p = p' @ push_windows dev"
  by (auto simp: encode_state_def split: sum.splits)

lemma images_no_window: "\<forall>x\<in>set p. \<not> is_window x \<Longrightarrow> \<forall>x\<in>set (push_images dev qs p). \<not> is_window x"
  by (simp add: push_images_def is_window_def split: option.splits)

lemma samplers_no_window: "\<forall>x\<in>set p. \<not> is_window x \<Longrightarrow> \<forall>x\<in>set (push_samplers dev qs p). \<not> is_window x"
  by (simp add: push_samplers_def is_window_def split: option.splits)

lemma slm_no_window:
  "push_slm dev qs p = Inr p' \<Longrightarrow> \<forall>x\<in>set p. \<not> is_window x \<Longrightarrow> \<forall>x\<in>set p'. \<not> is_window x"
  by (auto simp: push_slm_def is_window_def Let_def split: option.splits if_splits)

lemma windows_all_window: "\<forall>x\<in>set (push_windows dev). is_window x \<and> \<not> is_slm_alloc x"
  by (simp add: push_windows_def is_window_def is_slm_alloc_def)

lemma windows_have_both:
  "(\<exists>x\<in>set (push_windows dev). is_shared_window x) \<and> (\<exists>x\<in>set (push_windows dev). is_local_window x)"
  by (simp add: push_windows_def is_shared_window_def is_local_window_def)

lemma encode_state_windows:
  assumes "encode_state dev qs = Inr p"
  shows "\<exists>pre. p = pre @ push_windows dev \<and> (\<forall>x\<in>set pre. \<not> is_window x)"
proof -
  from encode_state_Inr_D [OF assms] obtain p' where
    s: "push_slm dev qs (push_samplers dev qs (push_images dev qs [])) = Inr p'"
    and p: "p = p' @ push_windows dev" by blast
  have "\<forall>x\<in>set (push_samplers dev qs (push_images dev qs [])). \<not> is_window x"
    by (intro samplers_no_window images_no_window) simp
  from slm_no_window [OF s this] p show ?thesis by blast
qed

lemma order_from_split:
  assumes "p = pre @ w" "\<forall>x\<in>set pre. \<not> is_window x" "\<forall>x\<in>set w. \<not> is_slm_alloc x"
    and "i < length p" "j < length p" "is_slm_alloc (p ! i)" "is_window (p ! j)"
  shows "i < j"
proof -
  have i: "i < length pre"
  proof (rule ccontr)
    assume "\<not> i < length pre"
    then have "p ! i = w ! (i - length pre)" "i - length pre < length w"
      using assms(1,4) by (auto simp: nth_append)
    then have "p ! i \<in> set w" by (metis nth_mem)
    with assms(3,6) show False by blast
  qed
  have j: "\<not> j < length pre"
  proof
    assume "j < length pre"
    then have "p ! j \<in> set pre" using assms(1) by (simp add: nth_append)
    with assms(2,7) show False by blast
  qed
  from i j show ?thesis by simp
qed

lemma sync_events_no_alloc: "\<forall>e\<in>set (sync_events dev qs). \<not> is_alloc_event e"
  by (auto simp: sync_events_def slot_events_def split: option.splits)

lemma update_Inr_cases:
  assumes "nvk_queue_state_update dev alloc qs tr = Inr (r, qs', tr')"
  shows "(\<not> slots_differ dev qs \<and> r = VK_SUCCESS \<and> qs' = qs \<and> tr' = tr @ sync_events dev qs) \<or>
         (slots_differ dev qs \<and> alloc = None \<and> r = VK_ERROR_OUT_OF_DEVICE_MEMORY \<and>
          qs' = provider_slots dev qs \<and>
          tr' = tr @ sync_events dev qs @ [BoNewMapped 1024 None]) \<or>
         (slots_differ dev qs \<and>
          (\<exists>b p. alloc = Some b \<and> encode_state dev (provider_slots dev qs) = Inr p \<and>
             r = VK_SUCCESS \<and>
             qs' = (provider_slots dev qs)\<lparr>push := \<lparr>push_bo = Some b, bo_map = p,
                                                     dw_count = nv_push_dw_count p\<rparr>\<rparr> \<and>
             tr' = tr @ sync_events dev qs @ [BoNewMapped 1024 (Some b)] @
                   push_events (push_bo (push qs))))"
proof (cases "slots_differ dev qs")
  case False
  with assms show ?thesis by (auto simp: update_clean)
next
  case True
  show ?thesis
  proof (cases alloc)
    case None
    with True assms show ?thesis by (auto simp: update_oom)
  next
    case (Some b)
    show ?thesis
    proof (cases "encode_state dev (provider_slots dev qs)")
      case (Inl a)
      with True Some assms show ?thesis by (simp add: update_abort)
    next
      case (Inr p)
      with True Some assms show ?thesis by (auto simp: update_rebuild)
    qed
  qed
qed

lemma update_Inl_iff:
  "nvk_queue_state_update dev alloc qs tr = Inl a \<longleftrightarrow>
     slots_differ dev qs \<and> alloc \<noteq> None \<and> encode_state dev (provider_slots dev qs) = Inl a"
proof (cases "slots_differ dev qs")
  case False
  then show ?thesis by (simp add: update_clean)
next
  case True
  show ?thesis
  proof (cases alloc)
    case None
    with True show ?thesis by (simp add: update_oom)
  next
    case (Some b)
    show ?thesis
    proof (cases "encode_state dev (provider_slots dev qs)")
      case (Inl a')
      with True Some show ?thesis by (simp add: update_abort)
    next
      case (Inr p)
      with True Some show ?thesis by (simp add: update_rebuild)
    qed
  qed
qed

lemma encodes_after_push_store:
  "encode_state dev (qs\<lparr>push := x\<rparr>) = encode_state dev qs"
  by (simp add: encode_state_def push_slm_def push_samplers_def push_images_def Let_def
        cong: option.case_cong)

lemma per_tpc_aligned_iff:
  "(ucast (x :: 32 word) :: 64 word) AND 0x7fff = 0 \<longleftrightarrow> 0x8000 dvd unat x"
proof -
  have m: "(0x7fff :: 64 word) = mask 15"
    by (simp add: mask_eq_exp_minus_1)
  have e: "(0x8000 :: nat) = 2 ^ 15"
    by simp
  have u: "unat (ucast x :: 64 word) = unat x"
  proof -
    have "unat x < 2 ^ 32"
      using unsigned_less [of x] by simp
    also have "(2::nat) ^ 32 < 2 ^ 64"
      by simp
    finally show ?thesis
      by (simp add: unsigned_ucast_eq take_bit_nat_eq_self)
  qed
  have "(ucast x :: 64 word) AND mask 15 = 0 \<longleftrightarrow> 2 ^ 15 dvd unat (ucast x :: 64 word)"
    by (rule and_mask_dvd_nat [symmetric])
  then show ?thesis
    unfolding m e u .
qed

lemma push_slm_Inl_iff:
  "push_slm dev qs p = Inl a \<longleftrightarrow>
     slm_bo (slm qs) \<noteq> None \<and> \<not> 0x8000 dvd unat (bytes_per_tpc (slm qs))"
  by (cases a) (auto simp: push_slm_def Let_def per_tpc_aligned_iff split: option.splits)

lemma encode_state_Inl_iff:
  "encode_state dev qs = Inl a \<longleftrightarrow>
     slm_bo (slm qs) \<noteq> None \<and> \<not> 0x8000 dvd unat (bytes_per_tpc (slm qs))"
  using push_slm_Inl_iff [of dev qs "push_samplers dev qs (push_images dev qs [])" a]
  by (auto simp: encode_state_def split: sum.splits)

lemma slm_of_provider_slots:
  "slm_bo (slm (provider_slots dev qs)) = fst (dev_slm dev)"
  "bytes_per_tpc (slm (provider_slots dev qs)) = snd (snd (dev_slm dev))"
  by (simp_all add: provider_slots_def)

subsection \<open>The sample inputs evaluated\<close>

lemma push_init: "push_bo (push nvk_queue_state_init) = None"
  by (simp add: nvk_queue_state_init_def)

lemma differ_kepler_init: "slots_differ dev_kepler nvk_queue_state_init"
  by (simp add: slots_differ_def images_differ_def dev_kepler_def nvk_queue_state_init_def)

lemma encode_kepler:
  "encode_state dev_kepler (provider_slots dev_kepler nvk_queue_state_init) = Inr push_kepler"
proof (cases "encode_state dev_kepler (provider_slots dev_kepler nvk_queue_state_init)")
  case (Inl a)
  then have "\<not> 0x8000 dvd unat (0x8000 :: 32 word)"
    by (simp add: encode_state_Inl_iff slm_of_provider_slots dev_kepler_def)
  then show ?thesis by simp
next
  case (Inr p)
  then show ?thesis by (simp add: push_kepler_def)
qed

lemma sync_events_kepler_init:
  "sync_events dev_kepler nvk_queue_state_init =
     [GetBoRef Images (Some 1), GetBoRef Samplers (Some 2), GetBoRef Slm (Some 3)]"
  by (simp add: sync_events_def slot_events_def images_differ_def samplers_differ_def
        slm_differ_def dev_kepler_def nvk_queue_state_init_def)

lemma update_kepler:
  "nvk_queue_state_update dev_kepler (Some 7) nvk_queue_state_init [] =
     Inr (VK_SUCCESS, qs_kepler, tr_kepler)"
  using update_rebuild [OF differ_kepler_init encode_kepler, of 7 "[]"]
  by (simp add: qs_kepler_def tr_kepler_def sync_events_kepler_init push_events_def
        push_init)

lemma sync_events_kepler:
  "sync_events dev_kepler qs_kepler =
     [GetBoRef Images (Some 1), BoDestroy 1, GetBoRef Samplers (Some 2), BoDestroy 2,
      GetBoRef Slm (Some 3), BoDestroy 3]"
  by (simp add: sync_events_def slot_events_def images_differ_def samplers_differ_def
        slm_differ_def dev_kepler_def qs_kepler_def provider_slots_def)

lemma settled_kepler: "\<not> slots_differ dev_kepler qs_kepler"
  by (simp add: qs_kepler_def slots_differ_push provider_slots_settled)

lemma dw_kepler: "nv_push_dw_count push_kepler = 43"
proof -
  have "nv_push_dw_count p = 43"
    if "encode_state dev_kepler (provider_slots dev_kepler nvk_queue_state_init) = Inr p" for p
    using that
    by (auto simp add: encode_state_def push_slm_def push_samplers_def push_images_def
        push_windows_def provider_slots_def dev_kepler_def nvk_queue_state_init_def bo_heap_def
        Let_def VOLTA_COMPUTE_A_def nv_push_dw_count_def LINES_ALL_def)
  from this [OF encode_kepler] show ?thesis .
qed


lemma kepler_items:
  "push_kepler ! 36 = VAL NV9097 SET_SHADER_LOCAL_MEMORY_E 0x100 \<and>
   push_kepler ! 37 = MTHD NVA0C0 SET_SHADER_LOCAL_MEMORY_WINDOW"
proof -
  have "p ! 36 = VAL NV9097 SET_SHADER_LOCAL_MEMORY_E 0x100 \<and>
        p ! 37 = MTHD NVA0C0 SET_SHADER_LOCAL_MEMORY_WINDOW"
    if "encode_state dev_kepler (provider_slots dev_kepler nvk_queue_state_init) = Inr p" for p
    using that
    by (auto simp add: encode_state_def push_slm_def push_samplers_def push_images_def
        push_windows_def provider_slots_def dev_kepler_def nvk_queue_state_init_def bo_heap_def
        Let_def VOLTA_COMPUTE_A_def)
  from this [OF encode_kepler] show ?thesis .
qed

subsection \<open>The lost queue\<close>

text \<open>
  C1. On a queue whose lost flag is set, \<^verbatim>\<open>nvk_queue_submit\<close> and
  \<^verbatim>\<open>nvk_queue_submit_simple\<close> return \<open>VK_ERROR_DEVICE_LOST\<close> at once: the queue
  state is the one before the call and not one event is added, so there was no provider
  query (the update did not run), no allocation and no call of the transport. The flag
  stays set: after any number of calls, in any order and with any devices and answers,
  every call has returned \<open>VK_ERROR_DEVICE_LOST\<close> and the queue, lost flag included,
  is unchanged.
\<close>

theorem lost_queue_fails_fast:
  assumes "lost queue"
  shows "nvk_queue_submit dev env submit queue tr = Inr (VK_ERROR_DEVICE_LOST, queue, tr) \<and>
         nvk_queue_submit_simple dev env n dw extra_bos queue tr =
           (VK_ERROR_DEVICE_LOST, queue, tr) \<and>
         run_calls cs queue tr = Inr (replicate (length cs) VK_ERROR_DEVICE_LOST, queue, tr)"
  using assms by (simp add: submit_lost submit_simple_lost run_calls_lost)

theorem lost_queue_fails_fast_witness:
  "lost queue_lost \<and>
   nvk_queue_submit dev_kepler env_ok \<lparr>command_buffers = [5, 6]\<rparr> queue_lost [] =
     Inr (VK_ERROR_DEVICE_LOST, queue_lost, []) \<and>
   nvk_queue_submit_simple dev_kepler env_ok 2 [17, 18] [] queue_lost [] =
     (VK_ERROR_DEVICE_LOST, queue_lost, []) \<and>
   run_calls [Submit dev_kepler env_ok \<lparr>command_buffers = [5]\<rparr>,
              SubmitSimple dev_grown env_oom 1 [17] [],
              Submit dev_grown env_drm_fails \<lparr>command_buffers = []\<rparr>] queue_lost [] =
     Inr ([VK_ERROR_DEVICE_LOST, VK_ERROR_DEVICE_LOST, VK_ERROR_DEVICE_LOST], queue_lost, [])"
proof -
  have l: "lost queue_lost" by (simp add: queue_lost_def)
  show ?thesis
    using l
      lost_queue_fails_fast [OF l, of dev_kepler env_ok "\<lparr>command_buffers = [5, 6]\<rparr>" "[]"
        2 "[17, 18]" "[]"
        "[Submit dev_kepler env_ok \<lparr>command_buffers = [5]\<rparr>,
          SubmitSimple dev_grown env_oom 1 [17] [],
          Submit dev_grown env_drm_fails \<lparr>command_buffers = []\<rparr>]"]
    by simp
qed

subsection \<open>When the push buffer is rebuilt\<close>

text \<open>
  C2, as stated, fails: on a fresh queue whose three providers all answer a buffer
  object, every slot differs, yet with the allocation failing the update returns
  \<open>VK_ERROR_OUT_OF_DEVICE_MEMORY\<close> and the push-buffer slot is the empty one it was.
\<close>

theorem rebuild_iff_differs_counterexample:
  "slots_differ dev_kepler nvk_queue_state_init \<and>
   nvk_queue_state_update dev_kepler None nvk_queue_state_init [] =
     Inr (VK_ERROR_OUT_OF_DEVICE_MEMORY,
          \<lparr>images = \<lparr>tbl_bo = Some 1, alloc_count = 10\<rparr>,
           samplers = \<lparr>tbl_bo = Some 2, alloc_count = 4\<rparr>,
           slm = \<lparr>slm_bo = Some 3, bytes_per_warp = 0x100, bytes_per_tpc = 0x8000\<rparr>,
           push = \<lparr>push_bo = None, bo_map = [], dw_count = 0\<rparr>\<rparr>,
          [GetBoRef Images (Some 1), GetBoRef Samplers (Some 2), GetBoRef Slm (Some 3),
           BoNewMapped 1024 None]) \<and>
   push nvk_queue_state_init = \<lparr>push_bo = None, bo_map = [], dw_count = 0\<rparr>"
  by (simp add: differ_kepler_init update_oom sync_events_kepler_init)
     (simp add: provider_slots_def dev_kepler_def nvk_queue_state_init_def)

text \<open>
  C2, amended. The update takes the rebuild path, that is, asks for a push buffer,
  exactly when a slot differs. When none differs it returns \<open>VK_SUCCESS\<close> with the
  queue state unchanged and only the provider queries and the releases of their
  duplicates as events, none of them an allocation. When one differs: a failed allocation
  gives \<open>VK_ERROR_OUT_OF_DEVICE_MEMORY\<close> and leaves the push-buffer slot as it was; a
  successful one installs the fresh encoding of the slots' new values, unless the
  alignment assertion on the scratch size fails, which happens exactly when the scratch
  buffer object is present and its per-TPC size is not a multiple of \<open>0x8000\<close>.
\<close>

theorem update_rebuilds_when_it_can:
  "(\<not> slots_differ dev qs \<longrightarrow>
      nvk_queue_state_update dev alloc qs tr = Inr (VK_SUCCESS, qs, tr @ sync_events dev qs)) \<and>
   (slots_differ dev qs \<longrightarrow>
      nvk_queue_state_update dev None qs tr =
        Inr (VK_ERROR_OUT_OF_DEVICE_MEMORY, provider_slots dev qs,
             tr @ sync_events dev qs @ [BoNewMapped 1024 None]) \<and>
      push (provider_slots dev qs) = push qs \<and>
      (\<forall>b p. encode_state dev (provider_slots dev qs) = Inr p \<longrightarrow>
         nvk_queue_state_update dev (Some b) qs tr =
           Inr (VK_SUCCESS,
                (provider_slots dev qs)\<lparr>push := \<lparr>push_bo = Some b, bo_map = p,
                                                  dw_count = nv_push_dw_count p\<rparr>\<rparr>,
                tr @ sync_events dev qs @ [BoNewMapped 1024 (Some b)] @
                  push_events (push_bo (push qs)))) \<and>
      (\<forall>b. encode_state dev (provider_slots dev qs) = Inl AssertionFailed \<longrightarrow>
         nvk_queue_state_update dev (Some b) qs tr = Inl AssertionFailed)) \<and>
   (\<forall>e\<in>set (sync_events dev qs). \<not> is_alloc_event e) \<and>
   (encode_state dev (provider_slots dev qs) = Inl AssertionFailed \<longleftrightarrow>
      fst (dev_slm dev) \<noteq> None \<and> \<not> 0x8000 dvd unat (snd (snd (dev_slm dev))))"
proof (intro conjI impI allI)
  show "encode_state dev (provider_slots dev qs) = Inl AssertionFailed \<longleftrightarrow>
          fst (dev_slm dev) \<noteq> None \<and> \<not> 0x8000 dvd unat (snd (snd (dev_slm dev)))"
    by (simp add: encode_state_Inl_iff slm_of_provider_slots)
qed (simp_all add: update_clean update_oom update_rebuild update_abort push_of_provider_slots
       sync_events_no_alloc)

theorem update_rebuilds_when_it_can_witness:
  "slots_differ dev_kepler nvk_queue_state_init \<and>
   encode_state dev_kepler (provider_slots dev_kepler nvk_queue_state_init) = Inr push_kepler \<and>
   nvk_queue_state_update dev_kepler (Some 7) nvk_queue_state_init [] =
     Inr (VK_SUCCESS, qs_kepler, tr_kepler) \<and>
   push_bo (push qs_kepler) = Some 7 \<and> bo_map (push qs_kepler) = push_kepler \<and>
   \<not> slots_differ dev_kepler qs_kepler \<and>
   nvk_queue_state_update dev_kepler (Some 8) qs_kepler tr_kepler =
     Inr (VK_SUCCESS, qs_kepler,
          tr_kepler @ [GetBoRef Images (Some 1), BoDestroy 1, GetBoRef Samplers (Some 2),
                       BoDestroy 2, GetBoRef Slm (Some 3), BoDestroy 3])"
  using update_rebuilds_when_it_can [of dev_kepler nvk_queue_state_init "Some 7" "[]"]
    update_rebuilds_when_it_can [of dev_kepler qs_kepler "Some 8" tr_kepler]
  by (simp add: differ_kepler_init encode_kepler settled_kepler sync_events_kepler
        sync_events_kepler_init push_init push_events_def)
     (simp add: qs_kepler_def tr_kepler_def)

subsection \<open>Idempotence of the update\<close>

lemma update_settles:
  assumes "nvk_queue_state_update dev alloc qs tr = Inr (r, qs', tr')"
  shows "\<not> slots_differ dev qs'"
  using update_Inr_cases [OF assms]
  by (auto simp: provider_slots_settled slots_differ_push)

text \<open>
  C3. After an update that returned, whatever its result, a second update against the
  same provider answers finds no slot differing: its \<open>dirty\<close> flag is false, it returns
  \<open>VK_SUCCESS\<close> with the queue state unchanged, and none of its events is an
  allocation, whatever the allocator would have answered.
\<close>

theorem state_update_idempotent:
  assumes "nvk_queue_state_update dev alloc qs tr = Inr (r, qs', tr')"
  shows "\<not> slots_differ dev qs' \<and>
         sync_slots dev qs' tr' = (qs', False, tr' @ sync_events dev qs') \<and>
         nvk_queue_state_update dev alloc' qs' tr' =
           Inr (VK_SUCCESS, qs', tr' @ sync_events dev qs') \<and>
         filter is_alloc_event (sync_events dev qs') = []"
proof -
  have s: "\<not> slots_differ dev qs'"
    by (rule update_settles [OF assms])
  have "filter is_alloc_event (sync_events dev qs') = []"
    using sync_events_no_alloc [of dev qs'] by (simp add: filter_empty_conv)
  with s show ?thesis
    by (simp add: update_clean sync_slots_eq provider_slots_same)
qed

theorem state_update_idempotent_witness:
  "nvk_queue_state_update dev_kepler (Some 7) nvk_queue_state_init [] =
     Inr (VK_SUCCESS, qs_kepler, tr_kepler) \<and>
   sync_slots dev_kepler qs_kepler tr_kepler =
     (qs_kepler, False,
      tr_kepler @ [GetBoRef Images (Some 1), BoDestroy 1, GetBoRef Samplers (Some 2),
                   BoDestroy 2, GetBoRef Slm (Some 3), BoDestroy 3]) \<and>
   nvk_queue_state_update dev_kepler None qs_kepler tr_kepler =
     Inr (VK_SUCCESS, qs_kepler,
          tr_kepler @ [GetBoRef Images (Some 1), BoDestroy 1, GetBoRef Samplers (Some 2),
                       BoDestroy 2, GetBoRef Slm (Some 3), BoDestroy 3])"
  using state_update_idempotent [OF update_kepler, of None]
  by (simp add: update_kepler sync_events_kepler)

subsection \<open>The alignment assertion on the scratch size\<close>

text \<open>
  C7. The scratch block of the encoder ends in a failed assertion, and in nothing else,
  exactly when the scratch buffer object is present and its per-TPC size is not a
  multiple of \<open>0x8000\<close>. For the whole update: it aborts exactly when a slot differs,
  the push buffer was allocated, the scratch buffer object the provider answers is
  present and its per-TPC size is not a multiple of \<open>0x8000\<close>; the abort is not a
  \<open>VkResult\<close>. With a per-TPC size that is a multiple of \<open>0x8000\<close> the assertion
  never fires: the update returns. (The model keeps the assertion, as a build without
  \<^verbatim>\<open>NDEBUG\<close> does.)
\<close>

theorem per_tpc_alignment_assertion:
  "(push_slm dev qs p = Inl AssertionFailed \<longleftrightarrow>
      slm_bo (slm qs) \<noteq> None \<and> \<not> 0x8000 dvd unat (bytes_per_tpc (slm qs))) \<and>
   (nvk_queue_state_update dev alloc qs0 tr = Inl AssertionFailed \<longleftrightarrow>
      slots_differ dev qs0 \<and> alloc \<noteq> None \<and> fst (dev_slm dev) \<noteq> None \<and>
      \<not> 0x8000 dvd unat (snd (snd (dev_slm dev)))) \<and>
   (0x8000 dvd unat (snd (snd (dev_slm dev))) \<longrightarrow>
      (\<exists>r qs' tr'. nvk_queue_state_update dev alloc qs0 tr = Inr (r, qs', tr')))"
proof (intro conjI impI)
  show "push_slm dev qs p = Inl AssertionFailed \<longleftrightarrow>
      slm_bo (slm qs) \<noteq> None \<and> \<not> 0x8000 dvd unat (bytes_per_tpc (slm qs))"
    by (rule push_slm_Inl_iff)
  show u: "nvk_queue_state_update dev alloc qs0 tr = Inl AssertionFailed \<longleftrightarrow>
      slots_differ dev qs0 \<and> alloc \<noteq> None \<and> fst (dev_slm dev) \<noteq> None \<and>
      \<not> 0x8000 dvd unat (snd (snd (dev_slm dev)))"
    by (simp add: update_Inl_iff encode_state_Inl_iff slm_of_provider_slots)
  assume a: "0x8000 dvd unat (snd (snd (dev_slm dev)))"
  show "\<exists>r qs' tr'. nvk_queue_state_update dev alloc qs0 tr = Inr (r, qs', tr')"
  proof (cases "nvk_queue_state_update dev alloc qs0 tr")
    case (Inl x)
    then have "nvk_queue_state_update dev alloc qs0 tr = Inl AssertionFailed"
      by (cases x) simp
    with u a show ?thesis by simp
  next
    case (Inr y)
    then show ?thesis by (cases y) auto
  qed
qed

lemma differ_misaligned_init: "slots_differ dev_misaligned nvk_queue_state_init"
  by (simp add: slots_differ_def images_differ_def dev_misaligned_def dev_kepler_def
        nvk_queue_state_init_def)

text \<open>
  On the sample devices: a per-TPC size of \<open>0x8001\<close> aborts the first update, one of
  \<open>0x8000\<close> lets it return.
\<close>

theorem per_tpc_alignment_assertion_witness:
  "nvk_queue_state_update dev_misaligned (Some 7) nvk_queue_state_init [] = Inl AssertionFailed \<and>
   \<not> 0x8000 dvd unat (snd (snd (dev_slm dev_misaligned))) \<and>
   0x8000 dvd unat (snd (snd (dev_slm dev_kepler))) \<and>
   nvk_queue_state_update dev_kepler (Some 7) nvk_queue_state_init [] =
     Inr (VK_SUCCESS, qs_kepler, tr_kepler)"
  using per_tpc_alignment_assertion [of dev_misaligned nvk_queue_state_init "[]" "Some 7"
      nvk_queue_state_init "[]"]
  by (simp add: differ_misaligned_init update_kepler)
     (simp add: dev_misaligned_def dev_kepler_def)

subsection \<open>The memory windows\<close>

lemma push_windows_eq:
  "push_windows dev =
     (if VOLTA_COMPUTE_A \<le> cls_compute dev
      then [MTHD NVC3C0 SET_SHADER_SHARED_MEMORY_WINDOW_A,
            VAL NVC3C0 SET_SHADER_SHARED_MEMORY_WINDOW_A 0,
            VAL NVC3C0 SET_SHADER_SHARED_MEMORY_WINDOW_B 0xfe000000,
            MTHD NVC3C0 SET_SHADER_LOCAL_MEMORY_WINDOW_A,
            VAL NVC3C0 SET_SHADER_LOCAL_MEMORY_WINDOW_A 0,
            VAL NVC3C0 SET_SHADER_LOCAL_MEMORY_WINDOW_B 0xff000000,
            IMMD NV9097 SET_SHADER_LOCAL_MEMORY_WINDOW 0xff000000]
      else [MTHD NVA0C0 SET_SHADER_LOCAL_MEMORY_WINDOW,
            VAL NVA0C0 SET_SHADER_LOCAL_MEMORY_WINDOW 0xff000000,
            MTHD NVA0C0 SET_SHADER_SHARED_MEMORY_WINDOW,
            VAL NVA0C0 SET_SHADER_SHARED_MEMORY_WINDOW 0xfe000000,
            IMMD NV9097 SET_SHADER_LOCAL_MEMORY_WINDOW 0xff000000])"
  by (simp add: push_windows_def)

lemma differ_volta_init: "slots_differ dev_volta nvk_queue_state_init"
  by (simp add: slots_differ_def images_differ_def dev_volta_def nvk_queue_state_init_def)

lemma encode_volta:
  "encode_state dev_volta (provider_slots dev_volta nvk_queue_state_init) = Inr push_volta"
  by (simp add: encode_state_def push_slm_def push_samplers_def push_images_def
        push_windows_def provider_slots_def dev_volta_def nvk_queue_state_init_def bo_heap_def
        VOLTA_COMPUTE_A_def LINES_ALL_def push_volta_def)

lemma dw_volta: "nv_push_dw_count push_volta = 18"
  by (simp add: push_volta_def nv_push_dw_count_def)

lemma sync_events_volta_init:
  "sync_events dev_volta nvk_queue_state_init =
     [GetBoRef Images (Some 1), GetBoRef Samplers None, GetBoRef Slm None]"
  by (simp add: sync_events_def slot_events_def images_differ_def samplers_differ_def
        slm_differ_def dev_volta_def nvk_queue_state_init_def)

lemma length_kepler: "length push_kepler = 42"
proof -
  have "length p = 42"
    if "encode_state dev_kepler (provider_slots dev_kepler nvk_queue_state_init) = Inr p" for p
    using that
    by (auto simp add: encode_state_def push_slm_def push_samplers_def push_images_def
        push_windows_def provider_slots_def dev_kepler_def nvk_queue_state_init_def bo_heap_def
        Let_def VOLTA_COMPUTE_A_def)
  from this [OF encode_kepler] show ?thesis .
qed

lemma update_volta:
  "nvk_queue_state_update dev_volta (Some 7) nvk_queue_state_init [] =
     Inr (VK_SUCCESS, qs_volta,
          [GetBoRef Images (Some 1), GetBoRef Samplers None, GetBoRef Slm None,
           BoNewMapped 1024 (Some 7)])"
proof -
  have q: "(provider_slots dev_volta nvk_queue_state_init)
             \<lparr>push := \<lparr>push_bo = Some 7, bo_map = push_volta, dw_count = 18\<rparr>\<rparr> = qs_volta"
    by (simp add: provider_slots_def dev_volta_def nvk_queue_state_init_def qs_volta_def)
  show ?thesis
    using update_rebuild [OF differ_volta_init encode_volta, of 7 "[]"]
    by (simp add: sync_events_volta_init push_events_def push_init dw_volta q)
qed

text \<open>
  C8. Whenever the update rebuilds the push buffer, whichever slots differed and whichever
  buffer objects are present, the new buffer ends with the memory-window commands, and
  these are fixed by the hardware class alone. From Volta on: the compute shared-memory
  window (header, upper address word 0, lower address word \<open>0xfe000000\<close>), the
  compute local-memory window (header, 0, \<open>0xff000000\<close>) and the 3D local-memory
  window \<open>0xff000000\<close>. Before Volta: the compute local-memory window (header,
  \<open>0xff000000\<close>), the compute shared-memory window (header, \<open>0xfe000000\<close>) and the
  3D local-memory window \<open>0xff000000\<close>. No window command stands before them, and
  every scratch-memory allocation command of the buffer stands before every window
  command.
\<close>

theorem windows_after_scratch:
  assumes "slots_differ dev qs"
    and "nvk_queue_state_update dev (Some b) qs tr = Inr (r, qs', tr')"
  shows "(\<exists>pre. bo_map (push qs') =
            pre @
            (if VOLTA_COMPUTE_A \<le> cls_compute dev
             then [MTHD NVC3C0 SET_SHADER_SHARED_MEMORY_WINDOW_A,
                   VAL NVC3C0 SET_SHADER_SHARED_MEMORY_WINDOW_A 0,
                   VAL NVC3C0 SET_SHADER_SHARED_MEMORY_WINDOW_B 0xfe000000,
                   MTHD NVC3C0 SET_SHADER_LOCAL_MEMORY_WINDOW_A,
                   VAL NVC3C0 SET_SHADER_LOCAL_MEMORY_WINDOW_A 0,
                   VAL NVC3C0 SET_SHADER_LOCAL_MEMORY_WINDOW_B 0xff000000,
                   IMMD NV9097 SET_SHADER_LOCAL_MEMORY_WINDOW 0xff000000]
             else [MTHD NVA0C0 SET_SHADER_LOCAL_MEMORY_WINDOW,
                   VAL NVA0C0 SET_SHADER_LOCAL_MEMORY_WINDOW 0xff000000,
                   MTHD NVA0C0 SET_SHADER_SHARED_MEMORY_WINDOW,
                   VAL NVA0C0 SET_SHADER_SHARED_MEMORY_WINDOW 0xfe000000,
                   IMMD NV9097 SET_SHADER_LOCAL_MEMORY_WINDOW 0xff000000]) \<and>
            (\<forall>x\<in>set pre. \<not> is_window x)) \<and>
         push_windows dev =
           (if VOLTA_COMPUTE_A \<le> cls_compute dev
            then [MTHD NVC3C0 SET_SHADER_SHARED_MEMORY_WINDOW_A,
                  VAL NVC3C0 SET_SHADER_SHARED_MEMORY_WINDOW_A 0,
                  VAL NVC3C0 SET_SHADER_SHARED_MEMORY_WINDOW_B 0xfe000000,
                  MTHD NVC3C0 SET_SHADER_LOCAL_MEMORY_WINDOW_A,
                  VAL NVC3C0 SET_SHADER_LOCAL_MEMORY_WINDOW_A 0,
                  VAL NVC3C0 SET_SHADER_LOCAL_MEMORY_WINDOW_B 0xff000000,
                  IMMD NV9097 SET_SHADER_LOCAL_MEMORY_WINDOW 0xff000000]
            else [MTHD NVA0C0 SET_SHADER_LOCAL_MEMORY_WINDOW,
                  VAL NVA0C0 SET_SHADER_LOCAL_MEMORY_WINDOW 0xff000000,
                  MTHD NVA0C0 SET_SHADER_SHARED_MEMORY_WINDOW,
                  VAL NVA0C0 SET_SHADER_SHARED_MEMORY_WINDOW 0xfe000000,
                  IMMD NV9097 SET_SHADER_LOCAL_MEMORY_WINDOW 0xff000000]) \<and>
         (\<exists>pre. bo_map (push qs') = pre @ push_windows dev \<and> (\<forall>x\<in>set pre. \<not> is_window x)) \<and>
         (\<forall>x\<in>set (push_windows dev). is_window x \<and> \<not> is_slm_alloc x) \<and>
         (\<exists>x\<in>set (push_windows dev). is_shared_window x) \<and>
         (\<exists>x\<in>set (push_windows dev). is_local_window x) \<and>
         (\<forall>i j. i < length (bo_map (push qs')) \<longrightarrow> j < length (bo_map (push qs')) \<longrightarrow>
            is_slm_alloc (bo_map (push qs') ! i) \<longrightarrow> is_window (bo_map (push qs') ! j) \<longrightarrow>
            i < j)"
proof -
  from update_Inr_cases [OF assms(2)] assms(1) obtain p where
    e: "encode_state dev (provider_slots dev qs) = Inr p" and m: "bo_map (push qs') = p"
    by auto
  from encode_state_windows [OF e] obtain pre where
    pre: "p = pre @ push_windows dev" "\<forall>x\<in>set pre. \<not> is_window x"
    by blast
  have w: "\<forall>x\<in>set (push_windows dev). is_window x \<and> \<not> is_slm_alloc x"
    by (rule windows_all_window)
  then have w': "\<forall>x\<in>set (push_windows dev). \<not> is_slm_alloc x"
    by blast
  have o: "\<forall>i j. i < length p \<longrightarrow> j < length p \<longrightarrow> is_slm_alloc (p ! i) \<longrightarrow> is_window (p ! j) \<longrightarrow>
          i < j"
    using order_from_split [OF pre(1) pre(2) w'] by blast
  have d: "\<exists>pre. bo_map (push qs') = pre @ push_windows dev \<and> (\<forall>x\<in>set pre. \<not> is_window x)"
    using pre m by blast
  note x = push_windows_eq [of dev]
  from d have d': "\<exists>pre. bo_map (push qs') =
            pre @
            (if VOLTA_COMPUTE_A \<le> cls_compute dev
             then [MTHD NVC3C0 SET_SHADER_SHARED_MEMORY_WINDOW_A,
                   VAL NVC3C0 SET_SHADER_SHARED_MEMORY_WINDOW_A 0,
                   VAL NVC3C0 SET_SHADER_SHARED_MEMORY_WINDOW_B 0xfe000000,
                   MTHD NVC3C0 SET_SHADER_LOCAL_MEMORY_WINDOW_A,
                   VAL NVC3C0 SET_SHADER_LOCAL_MEMORY_WINDOW_A 0,
                   VAL NVC3C0 SET_SHADER_LOCAL_MEMORY_WINDOW_B 0xff000000,
                   IMMD NV9097 SET_SHADER_LOCAL_MEMORY_WINDOW 0xff000000]
             else [MTHD NVA0C0 SET_SHADER_LOCAL_MEMORY_WINDOW,
                   VAL NVA0C0 SET_SHADER_LOCAL_MEMORY_WINDOW 0xff000000,
                   MTHD NVA0C0 SET_SHADER_SHARED_MEMORY_WINDOW,
                   VAL NVA0C0 SET_SHADER_SHARED_MEMORY_WINDOW 0xfe000000,
                   IMMD NV9097 SET_SHADER_LOCAL_MEMORY_WINDOW 0xff000000]) \<and>
            (\<forall>x\<in>set pre. \<not> is_window x)"
    unfolding x .
  from o have o': "\<forall>i j. i < length (bo_map (push qs')) \<longrightarrow> j < length (bo_map (push qs')) \<longrightarrow>
            is_slm_alloc (bo_map (push qs') ! i) \<longrightarrow> is_window (bo_map (push qs') ! j) \<longrightarrow>
            i < j"
    unfolding m .
  from d' x d w windows_have_both [of dev] o' show ?thesis
    by (intro conjI) blast+
qed

text \<open>
  On the pre-Volta sample device, with a scratch buffer object, the last scratch
  allocation command is item 36 of the buffer and the windows are items 37 to 41. On the
  Volta sample device, with no scratch buffer object and no sampler table, the windows
  follow the ten items of the image table.
\<close>

theorem windows_after_scratch_witness:
  "slots_differ dev_kepler nvk_queue_state_init \<and>
   nvk_queue_state_update dev_kepler (Some 7) nvk_queue_state_init [] =
     Inr (VK_SUCCESS, qs_kepler, tr_kepler) \<and>
   bo_map (push qs_kepler) ! 36 = VAL NV9097 SET_SHADER_LOCAL_MEMORY_E 0x100 \<and>
   is_slm_alloc (bo_map (push qs_kepler) ! 36) \<and>
   bo_map (push qs_kepler) ! 37 = MTHD NVA0C0 SET_SHADER_LOCAL_MEMORY_WINDOW \<and>
   is_window (bo_map (push qs_kepler) ! 37) \<and>
   (36 :: nat) < 37 \<and>
   drop 37 (bo_map (push qs_kepler)) =
     [MTHD NVA0C0 SET_SHADER_LOCAL_MEMORY_WINDOW,
      VAL NVA0C0 SET_SHADER_LOCAL_MEMORY_WINDOW 0xff000000,
      MTHD NVA0C0 SET_SHADER_SHARED_MEMORY_WINDOW,
      VAL NVA0C0 SET_SHADER_SHARED_MEMORY_WINDOW 0xfe000000,
      IMMD NV9097 SET_SHADER_LOCAL_MEMORY_WINDOW 0xff000000] \<and>
   slots_differ dev_volta nvk_queue_state_init \<and>
   fst (dev_slm dev_volta) = None \<and>
   nvk_queue_state_update dev_volta (Some 7) nvk_queue_state_init [] =
     Inr (VK_SUCCESS, qs_volta,
          [GetBoRef Images (Some 1), GetBoRef Samplers None, GetBoRef Slm None,
           BoNewMapped 1024 (Some 7)]) \<and>
   drop 10 (bo_map (push qs_volta)) =
     [MTHD NVC3C0 SET_SHADER_SHARED_MEMORY_WINDOW_A,
      VAL NVC3C0 SET_SHADER_SHARED_MEMORY_WINDOW_A 0,
      VAL NVC3C0 SET_SHADER_SHARED_MEMORY_WINDOW_B 0xfe000000,
      MTHD NVC3C0 SET_SHADER_LOCAL_MEMORY_WINDOW_A,
      VAL NVC3C0 SET_SHADER_LOCAL_MEMORY_WINDOW_A 0,
      VAL NVC3C0 SET_SHADER_LOCAL_MEMORY_WINDOW_B 0xff000000,
      IMMD NV9097 SET_SHADER_LOCAL_MEMORY_WINDOW 0xff000000]"
proof -
  have m: "bo_map (push qs_kepler) = push_kepler"
    by (simp add: qs_kepler_def)
  have c: "\<not> VOLTA_COMPUTE_A \<le> cls_compute dev_kepler" "VOLTA_COMPUTE_A \<le> cls_compute dev_volta"
    by (simp_all add: VOLTA_COMPUTE_A_def dev_kepler_def dev_volta_def)
  note k = windows_after_scratch [OF differ_kepler_init update_kepler]
  note v = windows_after_scratch [OF differ_volta_init update_volta]
  have i: "is_slm_alloc (VAL NV9097 SET_SHADER_LOCAL_MEMORY_E 0x100)"
    "is_window (MTHD NVA0C0 SET_SHADER_LOCAL_MEMORY_WINDOW)"
    by (simp_all add: is_slm_alloc_def is_window_def)
  have lk: "length (bo_map (push qs_kepler)) = 42"
    using length_kepler by (simp add: m)
  from k c(1) obtain pre where
    pk: "bo_map (push qs_kepler) = pre @
      [MTHD NVA0C0 SET_SHADER_LOCAL_MEMORY_WINDOW,
       VAL NVA0C0 SET_SHADER_LOCAL_MEMORY_WINDOW 0xff000000,
       MTHD NVA0C0 SET_SHADER_SHARED_MEMORY_WINDOW,
       VAL NVA0C0 SET_SHADER_SHARED_MEMORY_WINDOW 0xfe000000,
       IMMD NV9097 SET_SHADER_LOCAL_MEMORY_WINDOW 0xff000000]"
    by auto
  with lk have "length pre = 37"
    by simp
  with pk have dk: "drop 37 (bo_map (push qs_kepler)) =
      [MTHD NVA0C0 SET_SHADER_LOCAL_MEMORY_WINDOW,
       VAL NVA0C0 SET_SHADER_LOCAL_MEMORY_WINDOW 0xff000000,
       MTHD NVA0C0 SET_SHADER_SHARED_MEMORY_WINDOW,
       VAL NVA0C0 SET_SHADER_SHARED_MEMORY_WINDOW 0xfe000000,
       IMMD NV9097 SET_SHADER_LOCAL_MEMORY_WINDOW 0xff000000]"
    by simp
  from v c(2) obtain pre' where
    pv: "bo_map (push qs_volta) = pre' @
      [MTHD NVC3C0 SET_SHADER_SHARED_MEMORY_WINDOW_A,
       VAL NVC3C0 SET_SHADER_SHARED_MEMORY_WINDOW_A 0,
       VAL NVC3C0 SET_SHADER_SHARED_MEMORY_WINDOW_B 0xfe000000,
       MTHD NVC3C0 SET_SHADER_LOCAL_MEMORY_WINDOW_A,
       VAL NVC3C0 SET_SHADER_LOCAL_MEMORY_WINDOW_A 0,
       VAL NVC3C0 SET_SHADER_LOCAL_MEMORY_WINDOW_B 0xff000000,
       IMMD NV9097 SET_SHADER_LOCAL_MEMORY_WINDOW 0xff000000]"
    by auto
  have "length (bo_map (push qs_volta)) = 17"
    by (simp add: qs_volta_def push_volta_def)
  with pv have "length pre' = 10"
    by simp
  with pv have dv: "drop 10 (bo_map (push qs_volta)) =
      [MTHD NVC3C0 SET_SHADER_SHARED_MEMORY_WINDOW_A,
       VAL NVC3C0 SET_SHADER_SHARED_MEMORY_WINDOW_A 0,
       VAL NVC3C0 SET_SHADER_SHARED_MEMORY_WINDOW_B 0xfe000000,
       MTHD NVC3C0 SET_SHADER_LOCAL_MEMORY_WINDOW_A,
       VAL NVC3C0 SET_SHADER_LOCAL_MEMORY_WINDOW_A 0,
       VAL NVC3C0 SET_SHADER_LOCAL_MEMORY_WINDOW_B 0xff000000,
       IMMD NV9097 SET_SHADER_LOCAL_MEMORY_WINDOW 0xff000000]"
    by simp
  have s: "fst (dev_slm dev_volta) = None"
    by (simp add: dev_volta_def)
  from kepler_items i have ki:
    "bo_map (push qs_kepler) ! 36 = VAL NV9097 SET_SHADER_LOCAL_MEMORY_E 0x100"
    "is_slm_alloc (bo_map (push qs_kepler) ! 36)"
    "bo_map (push qs_kepler) ! 37 = MTHD NVA0C0 SET_SHADER_LOCAL_MEMORY_WINDOW"
    "is_window (bo_map (push qs_kepler) ! 37)"
    by (simp_all add: m)
  have "(36 :: nat) < 37" by simp
  with differ_kepler_init update_kepler ki dk differ_volta_init s update_volta dv
  show ?thesis
    by blast
qed

subsection \<open>The capacity of the push buffer\<close>

lemma dw_take: "nv_push_dw_count (take k p) \<le> nv_push_dw_count p"
proof -
  have "nv_push_dw_count p = nv_push_dw_count (take k p) + nv_push_dw_count (drop k p)"
    using dw_append [of "take k p" "drop k p"] by simp
  then show ?thesis by simp
qed

text \<open>
  C9. For every device (either hardware generation) and every queue state (any slot
  present or absent) the encoder writes at most 43 words, at every point of the
  encoding, the point of the assertion included; this is within the 256 words the push
  buffer is allocated with. The count the update stores is the count of the words it
  wrote.
\<close>

theorem encoding_fits_push_buffer:
  "nv_push_dw_count (push_samplers dev qs (push_images dev qs [])) \<le> 256 \<and>
   (\<forall>p. encode_state dev qs = Inr p \<longrightarrow>
      nv_push_dw_count p \<le> 43 \<and> (\<forall>k. nv_push_dw_count (take k p) \<le> 256)) \<and>
   (\<forall>b tr r qs' tr'.
      slots_differ dev qs \<longrightarrow>
      nvk_queue_state_update dev (Some b) qs tr = Inr (r, qs', tr') \<longrightarrow>
      dw_count (push qs') = nv_push_dw_count (bo_map (push qs')) \<and> dw_count (push qs') \<le> 256)"
proof (intro conjI allI impI)
  have "nv_push_dw_count (push_images dev qs []) \<le> 10"
    using dw_images [of dev qs "[]"] by (simp add: nv_push_dw_count_def)
  then show "nv_push_dw_count (push_samplers dev qs (push_images dev qs [])) \<le> 256"
    using dw_samplers [of dev qs "push_images dev qs []"] by simp
next
  fix p assume "encode_state dev qs = Inr p"
  then show "nv_push_dw_count p \<le> 43" by (rule dw_encode_state)
next
  fix p k assume "encode_state dev qs = Inr p"
  then have "nv_push_dw_count p \<le> 43" by (rule dw_encode_state)
  with dw_take [of k p] show "nv_push_dw_count (take k p) \<le> 256" by simp
next
  fix b tr r qs' tr'
  assume d: "slots_differ dev qs"
    and u: "nvk_queue_state_update dev (Some b) qs tr = Inr (r, qs', tr')"
  from update_Inr_cases [OF u] d obtain p where
    e: "encode_state dev (provider_slots dev qs) = Inr p"
    and q: "qs' = (provider_slots dev qs)\<lparr>push := \<lparr>push_bo = Some b, bo_map = p,
                                                  dw_count = nv_push_dw_count p\<rparr>\<rparr>"
    by auto
  show "dw_count (push qs') = nv_push_dw_count (bo_map (push qs'))"
    by (simp add: q)
  from dw_encode_state [OF e] show "dw_count (push qs') \<le> 256"
    by (simp add: q)
qed

text \<open>
  The sample device has all three slots present on pre-Volta hardware, the longest
  encoding: 43 words.
\<close>

theorem encoding_fits_push_buffer_witness:
  "encode_state dev_kepler (provider_slots dev_kepler nvk_queue_state_init) = Inr push_kepler \<and>
   nv_push_dw_count push_kepler = 43 \<and>
   nv_push_dw_count (take 5 push_kepler) \<le> 256 \<and>
   slots_differ dev_kepler nvk_queue_state_init \<and>
   nvk_queue_state_update dev_kepler (Some 7) nvk_queue_state_init [] =
     Inr (VK_SUCCESS, qs_kepler, tr_kepler) \<and>
   dw_count (push qs_kepler) = nv_push_dw_count (bo_map (push qs_kepler)) \<and>
   dw_count (push qs_kepler) \<le> 256"
proof -
  note a = encoding_fits_push_buffer [of dev_kepler "provider_slots dev_kepler nvk_queue_state_init"]
  note b = encoding_fits_push_buffer [of dev_kepler nvk_queue_state_init]
  from a encode_kepler have 1: "nv_push_dw_count (take 5 push_kepler) \<le> 256"
    by blast
  from b differ_kepler_init update_kepler
  have 2: "dw_count (push qs_kepler) = nv_push_dw_count (bo_map (push qs_kepler)) \<and>
           dw_count (push qs_kepler) \<le> 256"
    by blast
  from 1 2 encode_kepler dw_kepler differ_kepler_init update_kepler show ?thesis
    by blast
qed

subsection \<open>What a submission computes\<close>

lemma submit_after_update:
  assumes "\<not> lost queue"
    and "nvk_queue_state_update dev (new_mapped env) (state queue) tr = Inr (VK_SUCCESS, qs, tr1)"
  shows "nvk_queue_submit dev env submit queue tr =
           Inr (if drm_result env = VK_SUCCESS then VK_SUCCESS else VK_ERROR_DEVICE_LOST,
                queue\<lparr>state := qs, lost := drm_result env \<noteq> VK_SUCCESS\<rparr>,
                tr1 @ DrmSubmit (push qs) (command_buffers submit)
                        (debug_flags dev AND NVK_DEBUG_PUSH_SYNC \<noteq> 0) #
                  (if dump_wanted dev (drm_result env)
                   then PushPrint (Encoded (take_dw (dw_count (push qs)) (bo_map (push qs)))) #
                          map CmdBufferDump (command_buffers submit)
                   else []))"
  using assms
  by (simp add: nvk_queue_submit_def vk_queue_is_lost_def vk_queue_set_lost_def Let_def
        dump_wanted_def nvk_queue_state_dump_push_def cmd_buffers_dump_eq)

lemma submit_update_failed:
  assumes "\<not> lost queue"
    and "nvk_queue_state_update dev (new_mapped env) (state queue) tr = Inr (r, qs, tr1)"
    and "r \<noteq> VK_SUCCESS"
  shows "nvk_queue_submit dev env submit queue tr =
           Inr (VK_ERROR_DEVICE_LOST, queue\<lparr>state := qs, lost := True\<rparr>, tr1)"
  using assms
  by (simp add: nvk_queue_submit_def vk_queue_is_lost_def vk_queue_set_lost_def)

lemma submit_simple_allocated:
  assumes "\<not> lost queue" and "new_mapped env = Some b"
  shows "nvk_queue_submit_simple dev env n dw extra_bos queue tr =
           (if drm_result env = VK_SUCCESS then VK_SUCCESS else VK_ERROR_DEVICE_LOST,
            queue\<lparr>lost := drm_result env \<noteq> VK_SUCCESS\<rparr>,
            tr @ [BoNewMapped (unat (n * 4)) (Some b), DrmSubmitSimple n b extra_bos] @
              (if dump_wanted dev (drm_result env)
               then [PushPrint (Words (take (unat n) dw))] else []) @
              [BoUnmap b, BoDestroy b])"
  using assms
  by (simp add: nvk_queue_submit_simple_def vk_queue_is_lost_def vk_queue_set_lost_def Let_def
        dump_wanted_def nouveau_ws_bo_destroy_def nouveau_ws_bo_unmap_def)



subsection \<open>The diagnostic sink\<close>

text \<open>
  C4, as stated, fails: with no debug flag set and the transport failing, neither
  \<^verbatim>\<open>nvk_queue_submit\<close> nor \<^verbatim>\<open>nvk_queue_submit_simple\<close> writes to the diagnostic
  sink; the queue is lost all the same.
\<close>

theorem dump_without_sync_counterexample:
  "debug_flags dev_kepler AND NVK_DEBUG_PUSH_DUMP = 0 \<and>
   drm_result env_drm_fails = VK_ERROR_UNKNOWN \<and>
   nvk_queue_submit dev_kepler env_drm_fails \<lparr>command_buffers = [5]\<rparr> queue_init [] =
     Inr (VK_ERROR_DEVICE_LOST, \<lparr>lost = True, state = qs_kepler\<rparr>,
          [GetBoRef Images (Some 1), GetBoRef Samplers (Some 2), GetBoRef Slm (Some 3),
           BoNewMapped 1024 (Some 7), DrmSubmit (push qs_kepler) [5] False]) \<and>
   nvk_queue_submit_simple dev_kepler env_drm_fails 2 [17, 18] [] queue_init [] =
     (VK_ERROR_DEVICE_LOST, \<lparr>lost = True, state = nvk_queue_state_init\<rparr>,
      [BoNewMapped 8 (Some 7), DrmSubmitSimple 2 7 [], BoUnmap 7, BoDestroy 7])"
proof -
  have l: "\<not> lost queue_init" and s: "state queue_init = nvk_queue_state_init"
    by (simp_all add: queue_init_def)
  have n: "new_mapped env_drm_fails = Some 7" and d: "drm_result env_drm_fails = VK_ERROR_UNKNOWN"
    by (simp_all add: env_drm_fails_def)
  have f: "debug_flags dev_kepler = 0"
    by (simp add: dev_kepler_def)
  have w: "\<not> dump_wanted dev_kepler VK_ERROR_UNKNOWN"
    by (simp add: dump_wanted_def f)
  have u: "nvk_queue_state_update dev_kepler (new_mapped env_drm_fails) (state queue_init) [] =
             Inr (VK_SUCCESS, qs_kepler, tr_kepler)"
    by (simp add: n s update_kepler)
  have 1: "nvk_queue_submit dev_kepler env_drm_fails \<lparr>command_buffers = [5]\<rparr> queue_init [] =
     Inr (VK_ERROR_DEVICE_LOST, \<lparr>lost = True, state = qs_kepler\<rparr>,
          [GetBoRef Images (Some 1), GetBoRef Samplers (Some 2), GetBoRef Slm (Some 3),
           BoNewMapped 1024 (Some 7), DrmSubmit (push qs_kepler) [5] False])"
    by (simp add: submit_after_update [OF l u] d w f tr_kepler_def)
  have 2: "nvk_queue_submit_simple dev_kepler env_drm_fails 2 [17, 18] [] queue_init [] =
     (VK_ERROR_DEVICE_LOST, \<lparr>lost = True, state = nvk_queue_state_init\<rparr>,
      [BoNewMapped 8 (Some 7), DrmSubmitSimple 2 7 [], BoUnmap 7, BoDestroy 7])"
    by (simp add: submit_simple_allocated [OF l n] d w) (simp add: queue_init_def)
  from 1 2 d f show ?thesis by simp
qed

text \<open>
  C4, amended. A submission that reaches the transport writes to the diagnostic sink
  (the push buffer, then every submitted command buffer; for the simple submission, the
  caller's words) exactly when the dump flag is set, or the sync flag is set and the
  transport has failed. So a failure is dumped with the dump flag unset only under the
  sync flag, and the dump flag alone dumps a successful submission. The result is
  \<open>VK_SUCCESS\<close> or, with the queue lost, \<open>VK_ERROR_DEVICE_LOST\<close>.
\<close>

theorem dump_when_wanted:
  "(\<not> lost queue \<and>
    nvk_queue_state_update dev (new_mapped env) (state queue) tr = Inr (VK_SUCCESS, qs, tr1) \<longrightarrow>
      nvk_queue_submit dev env submit queue tr =
        Inr (if drm_result env = VK_SUCCESS then VK_SUCCESS else VK_ERROR_DEVICE_LOST,
             queue\<lparr>state := qs, lost := drm_result env \<noteq> VK_SUCCESS\<rparr>,
             tr1 @ DrmSubmit (push qs) (command_buffers submit)
                     (debug_flags dev AND NVK_DEBUG_PUSH_SYNC \<noteq> 0) #
               (if (debug_flags dev AND NVK_DEBUG_PUSH_SYNC \<noteq> 0 \<and> drm_result env \<noteq> VK_SUCCESS) \<or>
                   debug_flags dev AND NVK_DEBUG_PUSH_DUMP \<noteq> 0
                then PushPrint (Encoded (take_dw (dw_count (push qs)) (bo_map (push qs)))) #
                       map CmdBufferDump (command_buffers submit)
                else []))) \<and>
   (\<not> lost queue \<and> new_mapped env = Some b \<longrightarrow>
      nvk_queue_submit_simple dev env n dw extra_bos queue tr =
        (if drm_result env = VK_SUCCESS then VK_SUCCESS else VK_ERROR_DEVICE_LOST,
         queue\<lparr>lost := drm_result env \<noteq> VK_SUCCESS\<rparr>,
         tr @ [BoNewMapped (unat (n * 4)) (Some b), DrmSubmitSimple n b extra_bos] @
           (if (debug_flags dev AND NVK_DEBUG_PUSH_SYNC \<noteq> 0 \<and> drm_result env \<noteq> VK_SUCCESS) \<or>
               debug_flags dev AND NVK_DEBUG_PUSH_DUMP \<noteq> 0
            then [PushPrint (Words (take (unat n) dw))] else []) @
           [BoUnmap b, BoDestroy b]))"
proof (intro conjI impI)
  assume "\<not> lost queue \<and>
    nvk_queue_state_update dev (new_mapped env) (state queue) tr = Inr (VK_SUCCESS, qs, tr1)"
  then show "nvk_queue_submit dev env submit queue tr =
        Inr (if drm_result env = VK_SUCCESS then VK_SUCCESS else VK_ERROR_DEVICE_LOST,
             queue\<lparr>state := qs, lost := drm_result env \<noteq> VK_SUCCESS\<rparr>,
             tr1 @ DrmSubmit (push qs) (command_buffers submit)
                     (debug_flags dev AND NVK_DEBUG_PUSH_SYNC \<noteq> 0) #
               (if (debug_flags dev AND NVK_DEBUG_PUSH_SYNC \<noteq> 0 \<and> drm_result env \<noteq> VK_SUCCESS) \<or>
                   debug_flags dev AND NVK_DEBUG_PUSH_DUMP \<noteq> 0
                then PushPrint (Encoded (take_dw (dw_count (push qs)) (bo_map (push qs)))) #
                       map CmdBufferDump (command_buffers submit)
                else []))"
    using submit_after_update [of queue dev env tr qs tr1 submit]
    by (simp add: dump_wanted_def)
next
  assume "\<not> lost queue \<and> new_mapped env = Some b"
  then show "nvk_queue_submit_simple dev env n dw extra_bos queue tr =
        (if drm_result env = VK_SUCCESS then VK_SUCCESS else VK_ERROR_DEVICE_LOST,
         queue\<lparr>lost := drm_result env \<noteq> VK_SUCCESS\<rparr>,
         tr @ [BoNewMapped (unat (n * 4)) (Some b), DrmSubmitSimple n b extra_bos] @
           (if (debug_flags dev AND NVK_DEBUG_PUSH_SYNC \<noteq> 0 \<and> drm_result env \<noteq> VK_SUCCESS) \<or>
               debug_flags dev AND NVK_DEBUG_PUSH_DUMP \<noteq> 0
            then [PushPrint (Words (take (unat n) dw))] else []) @
           [BoUnmap b, BoDestroy b])"
    using submit_simple_allocated [of queue env b dev n dw extra_bos tr]
    by (simp add: dump_wanted_def)
qed

lemma update_ignores_debug_flags:
  "nvk_queue_state_update (dev\<lparr>debug_flags := f\<rparr>) alloc qs tr =
   nvk_queue_state_update dev alloc qs tr"
proof -
  have "push_images (dev\<lparr>debug_flags := f\<rparr>) q p = push_images dev q p" for q p
    by (simp add: push_images_def split: option.splits)
  moreover have "push_samplers (dev\<lparr>debug_flags := f\<rparr>) q p = push_samplers dev q p" for q p
    by (simp add: push_samplers_def split: option.splits)
  moreover have "push_slm (dev\<lparr>debug_flags := f\<rparr>) q p = push_slm dev q p" for q p
    by (simp add: push_slm_def Let_def split: option.splits)
  moreover have "push_windows (dev\<lparr>debug_flags := f\<rparr>) = push_windows dev"
    by (simp add: push_windows_def)
  ultimately have e: "encode_state (dev\<lparr>debug_flags := f\<rparr>) q = encode_state dev q" for q
    by (simp add: encode_state_def split: sum.splits)
  have s: "sync_slots (dev\<lparr>debug_flags := f\<rparr>) qs tr = sync_slots dev qs tr"
    by (simp add: sync_slots_eq provider_slots_def slots_differ_def images_differ_def
        samplers_differ_def slm_differ_def sync_events_def)
  show ?thesis
    by (simp add: nvk_queue_state_update_def s e Let_def split: prod.splits option.splits)
qed

text \<open>
  With the sync flag alone a failed submission is dumped; with the dump flag alone a
  successful simple submission is dumped.
\<close>

theorem dump_when_wanted_witness:
  "\<not> lost queue_init \<and>
   nvk_queue_state_update dev_sync (new_mapped env_drm_fails) (state queue_init) [] =
     Inr (VK_SUCCESS, qs_kepler, tr_kepler) \<and>
   nvk_queue_submit dev_sync env_drm_fails \<lparr>command_buffers = [5]\<rparr> queue_init [] =
     Inr (VK_ERROR_DEVICE_LOST, \<lparr>lost = True, state = qs_kepler\<rparr>,
          tr_kepler @ [DrmSubmit (push qs_kepler) [5] True, PushPrint (Encoded push_kepler),
                       CmdBufferDump 5]) \<and>
   new_mapped env_ok = Some 7 \<and>
   nvk_queue_submit_simple dev_dump env_ok 2 [17, 18] [] queue_init [] =
     (VK_SUCCESS, \<lparr>lost = False, state = nvk_queue_state_init\<rparr>,
      [BoNewMapped 8 (Some 7), DrmSubmitSimple 2 7 [], PushPrint (Words [17, 18]),
       BoUnmap 7, BoDestroy 7])"
proof -
  have l: "\<not> lost queue_init" and s: "state queue_init = nvk_queue_state_init"
    by (simp_all add: queue_init_def)
  have n: "new_mapped env_drm_fails = Some 7" "drm_result env_drm_fails = VK_ERROR_UNKNOWN"
    "drm_result env_ok = VK_SUCCESS"
    by (simp_all add: env_drm_fails_def env_ok_def)
  have k: "new_mapped env_ok = Some 7"
    by (simp add: env_ok_def)
  have f: "debug_flags dev_sync = 2" "debug_flags dev_dump = 1"
    by (simp_all add: dev_sync_def dev_dump_def NVK_DEBUG_PUSH_SYNC_def NVK_DEBUG_PUSH_DUMP_def)
  have u: "nvk_queue_state_update dev_sync (new_mapped env_drm_fails) (state queue_init) [] =
             Inr (VK_SUCCESS, qs_kepler, tr_kepler)"
    by (simp add: n s dev_sync_def update_ignores_debug_flags update_kepler)
  have m: "take_dw (dw_count (push qs_kepler)) (bo_map (push qs_kepler)) = push_kepler"
    by (simp add: qs_kepler_def take_dw_all)
  have q: "queue_init\<lparr>state := qs_kepler, lost := True\<rparr> = \<lparr>lost = True, state = qs_kepler\<rparr>"
    "queue_init\<lparr>lost := False\<rparr> = \<lparr>lost = False, state = nvk_queue_state_init\<rparr>"
    by (simp_all add: queue_init_def)
  have 1: "nvk_queue_submit dev_sync env_drm_fails \<lparr>command_buffers = [5]\<rparr> queue_init [] =
     Inr (VK_ERROR_DEVICE_LOST, \<lparr>lost = True, state = qs_kepler\<rparr>,
          tr_kepler @ [DrmSubmit (push qs_kepler) [5] True, PushPrint (Encoded push_kepler),
                       CmdBufferDump 5])"
    using dump_when_wanted [where queue = queue_init and dev = dev_sync and env = env_drm_fails
        and tr = "[]" and qs = qs_kepler and ?tr1.0 = tr_kepler
        and submit = "\<lparr>command_buffers = [5]\<rparr>",
        THEN conjunct1, THEN mp, OF conjI [OF l u]]
    by (simp add: n f m q NVK_DEBUG_PUSH_SYNC_def NVK_DEBUG_PUSH_DUMP_def)
  have 2: "nvk_queue_submit_simple dev_dump env_ok 2 [17, 18] [] queue_init [] =
     (VK_SUCCESS, \<lparr>lost = False, state = nvk_queue_state_init\<rparr>,
      [BoNewMapped 8 (Some 7), DrmSubmitSimple 2 7 [], PushPrint (Words [17, 18]),
       BoUnmap 7, BoDestroy 7])"
    using dump_when_wanted [where queue = queue_init and dev = dev_dump and env = env_ok
        and tr = "[]" and b = 7 and n = 2 and dw = "[17, 18]" and extra_bos = "[]",
        THEN conjunct2, THEN mp, OF conjI [OF l k]]
    by (simp add: n f q NVK_DEBUG_PUSH_SYNC_def NVK_DEBUG_PUSH_DUMP_def)
  from l u 1 k 2 show ?thesis by simp
qed

subsection \<open>A failed allocation during the rebuild\<close>

text \<open>
  C5, as stated, fails in its first part: when the allocation of the rebuild fails, the
  update returns \<open>VK_ERROR_OUT_OF_DEVICE_MEMORY\<close>, but \<^verbatim>\<open>nvk_queue_submit\<close> returns
  what \<^verbatim>\<open>vk_queue_set_lost\<close> returns, \<open>VK_ERROR_DEVICE_LOST\<close>.
\<close>

theorem rebuild_oom_result_counterexample:
  "nvk_queue_state_update dev_kepler (new_mapped env_oom) (state queue_init) [] =
     Inr (VK_ERROR_OUT_OF_DEVICE_MEMORY, provider_slots dev_kepler nvk_queue_state_init,
          [GetBoRef Images (Some 1), GetBoRef Samplers (Some 2), GetBoRef Slm (Some 3),
           BoNewMapped 1024 None]) \<and>
   nvk_queue_submit dev_kepler env_oom \<lparr>command_buffers = [5]\<rparr> queue_init [] =
     Inr (VK_ERROR_DEVICE_LOST,
          \<lparr>lost = True, state = provider_slots dev_kepler nvk_queue_state_init\<rparr>,
          [GetBoRef Images (Some 1), GetBoRef Samplers (Some 2), GetBoRef Slm (Some 3),
           BoNewMapped 1024 None]) \<and>
   VK_ERROR_DEVICE_LOST \<noteq> VK_ERROR_OUT_OF_DEVICE_MEMORY"
proof -
  have l: "\<not> lost queue_init" and s: "state queue_init = nvk_queue_state_init"
    by (simp_all add: queue_init_def)
  have n: "new_mapped env_oom = None"
    by (simp add: env_oom_def)
  have u: "nvk_queue_state_update dev_kepler (new_mapped env_oom) (state queue_init) [] =
     Inr (VK_ERROR_OUT_OF_DEVICE_MEMORY, provider_slots dev_kepler nvk_queue_state_init,
          [GetBoRef Images (Some 1), GetBoRef Samplers (Some 2), GetBoRef Slm (Some 3),
           BoNewMapped 1024 None])"
    by (simp add: n s update_oom [OF differ_kepler_init] sync_events_kepler_init)
  have "nvk_queue_submit dev_kepler env_oom \<lparr>command_buffers = [5]\<rparr> queue_init [] =
     Inr (VK_ERROR_DEVICE_LOST,
          \<lparr>lost = True, state = provider_slots dev_kepler nvk_queue_state_init\<rparr>,
          [GetBoRef Images (Some 1), GetBoRef Samplers (Some 2), GetBoRef Slm (Some 3),
           BoNewMapped 1024 None])"
    by (simp add: submit_update_failed [OF l u])
  with u show ?thesis by simp
qed

text \<open>
  C5, amended. On a queue that is not lost, with a slot differing and the allocation
  failing, the update returns \<open>VK_ERROR_OUT_OF_DEVICE_MEMORY\<close>; \<^verbatim>\<open>nvk_queue_submit\<close>
  returns \<open>VK_ERROR_DEVICE_LOST\<close>, sets the lost flag and does not reach the
  transport; any later submit on that queue returns \<open>VK_ERROR_DEVICE_LOST\<close> with no
  event at all, so with no allocation.
\<close>

theorem rebuild_oom_loses_queue:
  assumes "\<not> lost queue" and "slots_differ dev (state queue)" and "new_mapped env = None"
  shows "nvk_queue_state_update dev (new_mapped env) (state queue) tr =
           Inr (VK_ERROR_OUT_OF_DEVICE_MEMORY, provider_slots dev (state queue),
                tr @ sync_events dev (state queue) @ [BoNewMapped 1024 None]) \<and>
         nvk_queue_submit dev env submit queue tr =
           Inr (VK_ERROR_DEVICE_LOST,
                queue\<lparr>state := provider_slots dev (state queue), lost := True\<rparr>,
                tr @ sync_events dev (state queue) @ [BoNewMapped 1024 None]) \<and>
         nvk_queue_submit dev' env' submit'
             (queue\<lparr>state := provider_slots dev (state queue), lost := True\<rparr>) tr2 =
           Inr (VK_ERROR_DEVICE_LOST,
                queue\<lparr>state := provider_slots dev (state queue), lost := True\<rparr>, tr2)"
proof -
  have u: "nvk_queue_state_update dev (new_mapped env) (state queue) tr =
           Inr (VK_ERROR_OUT_OF_DEVICE_MEMORY, provider_slots dev (state queue),
                tr @ sync_events dev (state queue) @ [BoNewMapped 1024 None])"
    by (simp add: assms(3) update_oom [OF assms(2)])
  have "nvk_queue_submit dev env submit queue tr =
           Inr (VK_ERROR_DEVICE_LOST,
                queue\<lparr>state := provider_slots dev (state queue), lost := True\<rparr>,
                tr @ sync_events dev (state queue) @ [BoNewMapped 1024 None])"
    by (simp add: submit_update_failed [OF assms(1) u])
  with u show ?thesis
    by (simp add: submit_lost)
qed

text \<open>
  On the sample device, with the allocator out of memory.
\<close>

theorem rebuild_oom_loses_queue_witness:
  "\<not> lost queue_init \<and> slots_differ dev_kepler (state queue_init) \<and>
   new_mapped env_oom = None \<and>
   nvk_queue_submit dev_kepler env_oom \<lparr>command_buffers = [5]\<rparr> queue_init [] =
     Inr (VK_ERROR_DEVICE_LOST,
          \<lparr>lost = True, state = provider_slots dev_kepler nvk_queue_state_init\<rparr>,
          [GetBoRef Images (Some 1), GetBoRef Samplers (Some 2), GetBoRef Slm (Some 3),
           BoNewMapped 1024 None]) \<and>
   nvk_queue_submit dev_kepler env_ok \<lparr>command_buffers = [5]\<rparr>
       \<lparr>lost = True, state = provider_slots dev_kepler nvk_queue_state_init\<rparr>
       [GetBoRef Images (Some 1), GetBoRef Samplers (Some 2), GetBoRef Slm (Some 3),
        BoNewMapped 1024 None] =
     Inr (VK_ERROR_DEVICE_LOST,
          \<lparr>lost = True, state = provider_slots dev_kepler nvk_queue_state_init\<rparr>,
          [GetBoRef Images (Some 1), GetBoRef Samplers (Some 2), GetBoRef Slm (Some 3),
           BoNewMapped 1024 None])"
proof -
  have l: "\<not> lost queue_init" and s: "state queue_init = nvk_queue_state_init"
    by (simp_all add: queue_init_def)
  have d: "slots_differ dev_kepler (state queue_init)"
    by (simp add: s differ_kepler_init)
  have n: "new_mapped env_oom = None"
    by (simp add: env_oom_def)
  have q: "queue_init\<lparr>state := provider_slots dev_kepler (state queue_init), lost := True\<rparr> =
           \<lparr>lost = True, state = provider_slots dev_kepler nvk_queue_state_init\<rparr>"
    by (simp add: queue_init_def)
  show ?thesis
    using rebuild_oom_loses_queue [OF l d n, of "[]" "\<lparr>command_buffers = [5]\<rparr>" dev_kepler env_ok
        "\<lparr>command_buffers = [5]\<rparr>"
        "[GetBoRef Images (Some 1), GetBoRef Samplers (Some 2), GetBoRef Slm (Some 3),
          BoNewMapped 1024 None]"]
    by (simp add: l d n q) (simp add: s sync_events_kepler_init)
qed

subsection \<open>References taken and released by the update\<close>

lemma ref_balance_append: "ref_balance h (a @ b) = ref_balance h a + ref_balance h b"
  by (simp add: ref_balance_def)

lemma ref_balance_slot:
  "(\<not> d \<Longrightarrow> new = old) \<Longrightarrow>
   ref_balance h (slot_events pr new old d) =
     (if new = Some h then 1 else 0) - (if old = Some h then 1 else 0)"
  by (auto simp: slot_events_def ref_balance_def split: option.splits)

lemma ref_balance_sync:
  "ref_balance h (sync_events dev qs) =
     held h (provider_slots dev qs) - held h qs"
proof -
  have i: "ref_balance h (slot_events Images (fst (dev_images dev)) (tbl_bo (images qs))
              (images_differ dev qs)) =
           (if fst (dev_images dev) = Some h then 1 else 0) -
           (if tbl_bo (images qs) = Some h then 1 else 0)"
    by (rule ref_balance_slot) (simp add: images_differ_def)
  have s: "ref_balance h (slot_events Samplers (fst (dev_samplers dev)) (tbl_bo (samplers qs))
              (samplers_differ dev qs)) =
           (if fst (dev_samplers dev) = Some h then 1 else 0) -
           (if tbl_bo (samplers qs) = Some h then 1 else 0)"
    by (rule ref_balance_slot) (simp add: samplers_differ_def)
  have l: "ref_balance h (slot_events Slm (fst (dev_slm dev)) (slm_bo (slm qs))
              (slm_differ dev qs)) =
           (if fst (dev_slm dev) = Some h then 1 else 0) -
           (if slm_bo (slm qs) = Some h then 1 else 0)"
    by (rule ref_balance_slot) (simp add: slm_differ_def)
  show ?thesis
    unfolding sync_events_def ref_balance_append i s l
    by (simp add: held_def provider_slots_def)
qed

lemma ref_balance_push_events:
  "ref_balance h (push_events old) = - (if old = Some h then 1 else 0)"
  by (simp add: push_events_def ref_balance_def split: option.splits)

lemma ref_balance_Cons: "ref_balance h (e # es) = ref_delta h e + ref_balance h es"
  by (simp add: ref_balance_def)

lemma ref_balance_Nil: "ref_balance h [] = 0"
  by (simp add: ref_balance_def)

lemma held_push_store:
  "held h (qs\<lparr>push := \<lparr>push_bo = Some b, bo_map = p, dw_count = n\<rparr>\<rparr>) =
     held h qs - (if push_bo (push qs) = Some h then 1 else 0) + (if b = h then 1 else 0)"
  by (simp add: held_def)

lemma update_conserves_references:
  assumes "nvk_queue_state_update dev alloc qs tr = Inr (r, qs', tr')"
  shows "ref_balance h tr' = ref_balance h tr + held h qs' - held h qs"
  using update_Inr_cases [OF assms]
  by (auto simp: ref_balance_append ref_balance_sync ref_balance_push_events
        ref_balance_Cons ref_balance_Nil held_push_store push_of_provider_slots
        provider_slots_same)

text \<open>
  C6. The three slot blocks leave, slot after slot, the events \<open>slot_events\<close>: the
  provider query and then one release. For a slot that compares equal the slot keeps its
  value and the release is that of the duplicate reference the query returned (none
  when the provider answers NULL); for a slot that differs the release is that of the
  reference cached before (none when the slot was empty) and the slot holds the new
  value. All of this comes first in the events of any update that returns. No reference
  leaks: for every buffer object, what an update that returns adds to the balance of
  references taken and released is what it adds to the number of slots holding that
  buffer object; a clean update adds nothing to either and releases every duplicate.
\<close>

theorem update_releases_references:
  "sync_slots dev qs tr =
     (provider_slots dev qs, slots_differ dev qs,
      tr @ slot_events Images (fst (dev_images dev)) (tbl_bo (images qs)) (images_differ dev qs)
         @ slot_events Samplers (fst (dev_samplers dev)) (tbl_bo (samplers qs))
             (samplers_differ dev qs)
         @ slot_events Slm (fst (dev_slm dev)) (slm_bo (slm qs)) (slm_differ dev qs)) \<and>
   slot_events pr (Some b) old False = [GetBoRef pr (Some b), BoDestroy b] \<and>
   slot_events pr None old False = [GetBoRef pr None] \<and>
   slot_events pr new (Some b) True = [GetBoRef pr new, BoDestroy b] \<and>
   slot_events pr new None True = [GetBoRef pr new] \<and>
   (\<not> images_differ dev qs \<longrightarrow> images (provider_slots dev qs) = images qs) \<and>
   (\<not> samplers_differ dev qs \<longrightarrow> samplers (provider_slots dev qs) = samplers qs) \<and>
   (\<not> slm_differ dev qs \<longrightarrow> slm (provider_slots dev qs) = slm qs) \<and>
   images (provider_slots dev qs) =
     \<lparr>tbl_bo = fst (dev_images dev), alloc_count = snd (dev_images dev)\<rparr> \<and>
   samplers (provider_slots dev qs) =
     \<lparr>tbl_bo = fst (dev_samplers dev), alloc_count = snd (dev_samplers dev)\<rparr> \<and>
   slm (provider_slots dev qs) =
     \<lparr>slm_bo = fst (dev_slm dev), bytes_per_warp = fst (snd (dev_slm dev)),
      bytes_per_tpc = snd (snd (dev_slm dev))\<rparr> \<and>
   (\<forall>r qs' tr'. nvk_queue_state_update dev alloc qs tr = Inr (r, qs', tr') \<longrightarrow>
      (\<exists>rest. tr' = tr @ sync_events dev qs @ rest) \<and>
      (\<forall>h. ref_balance h tr' = ref_balance h tr + held h qs' - held h qs) \<and>
      (\<not> slots_differ dev qs \<longrightarrow>
         tr' = tr @ sync_events dev qs \<and> (\<forall>h. ref_balance h tr' = ref_balance h tr)))"
proof -
  have a: "sync_slots dev qs tr =
     (provider_slots dev qs, slots_differ dev qs,
      tr @ slot_events Images (fst (dev_images dev)) (tbl_bo (images qs)) (images_differ dev qs)
         @ slot_events Samplers (fst (dev_samplers dev)) (tbl_bo (samplers qs))
             (samplers_differ dev qs)
         @ slot_events Slm (fst (dev_slm dev)) (slm_bo (slm qs)) (slm_differ dev qs))"
    by (simp add: sync_slots_eq sync_events_def)
  have b: "(\<not> images_differ dev qs \<longrightarrow> images (provider_slots dev qs) = images qs) \<and>
   (\<not> samplers_differ dev qs \<longrightarrow> samplers (provider_slots dev qs) = samplers qs) \<and>
   (\<not> slm_differ dev qs \<longrightarrow> slm (provider_slots dev qs) = slm qs) \<and>
   images (provider_slots dev qs) =
     \<lparr>tbl_bo = fst (dev_images dev), alloc_count = snd (dev_images dev)\<rparr> \<and>
   samplers (provider_slots dev qs) =
     \<lparr>tbl_bo = fst (dev_samplers dev), alloc_count = snd (dev_samplers dev)\<rparr> \<and>
   slm (provider_slots dev qs) =
     \<lparr>slm_bo = fst (dev_slm dev), bytes_per_warp = fst (snd (dev_slm dev)),
      bytes_per_tpc = snd (snd (dev_slm dev))\<rparr>"
    by (simp add: provider_slots_def images_differ_def samplers_differ_def slm_differ_def)
  have c: "(\<exists>rest. tr' = tr @ sync_events dev qs @ rest) \<and>
      (\<forall>h. ref_balance h tr' = ref_balance h tr + held h qs' - held h qs) \<and>
      (\<not> slots_differ dev qs \<longrightarrow>
         tr' = tr @ sync_events dev qs \<and> (\<forall>h. ref_balance h tr' = ref_balance h tr))"
    if u: "nvk_queue_state_update dev alloc qs tr = Inr (r, qs', tr')" for r qs' tr'
  proof (intro conjI impI allI)
    show "\<exists>rest. tr' = tr @ sync_events dev qs @ rest"
      using update_Inr_cases [OF u] by auto
    show "ref_balance h tr' = ref_balance h tr + held h qs' - held h qs" for h
      by (rule update_conserves_references [OF u])
    assume n: "\<not> slots_differ dev qs"
    with u show t: "tr' = tr @ sync_events dev qs"
      by (auto simp: update_clean)
    from n u have "qs' = qs"
      by (auto simp: update_clean)
    with update_conserves_references [OF u] show "ref_balance h tr' = ref_balance h tr" for h
      by simp
  qed
  have d: "slot_events pr (Some b) old False = [GetBoRef pr (Some b), BoDestroy b] \<and>
   slot_events pr None old False = [GetBoRef pr None] \<and>
   slot_events pr new (Some b) True = [GetBoRef pr new, BoDestroy b] \<and>
   slot_events pr new None True = [GetBoRef pr new]"
    by (simp add: slot_events_def)
  from a b c d show ?thesis
    by blast
qed

lemma differ_kepler_parts:
  "\<not> images_differ dev_kepler qs_kepler" "\<not> samplers_differ dev_kepler qs_kepler"
  "\<not> slm_differ dev_kepler qs_kepler"
  using settled_kepler by (simp_all add: slots_differ_def)

lemma ref_balance_kepler: "ref_balance 2 tr_kepler = 1" "held 2 qs_kepler = 1"
  by (simp_all add: ref_balance_def tr_kepler_def held_def qs_kepler_def provider_slots_def
        dev_kepler_def)

text \<open>
  A clean update on the sample device: each provider's duplicate is released, and the
  balance of buffer object 2 stays at the one reference the sampler slot holds.
\<close>

theorem update_releases_references_witness:
  "\<not> images_differ dev_kepler qs_kepler \<and> \<not> samplers_differ dev_kepler qs_kepler \<and>
   \<not> slm_differ dev_kepler qs_kepler \<and> \<not> slots_differ dev_kepler qs_kepler \<and>
   nvk_queue_state_update dev_kepler None qs_kepler tr_kepler =
     Inr (VK_SUCCESS, qs_kepler,
          tr_kepler @ [GetBoRef Images (Some 1), BoDestroy 1, GetBoRef Samplers (Some 2),
                       BoDestroy 2, GetBoRef Slm (Some 3), BoDestroy 3]) \<and>
   samplers (provider_slots dev_kepler qs_kepler) = samplers qs_kepler \<and>
   ref_balance 2 (tr_kepler @ [GetBoRef Images (Some 1), BoDestroy 1,
                               GetBoRef Samplers (Some 2), BoDestroy 2,
                               GetBoRef Slm (Some 3), BoDestroy 3]) = ref_balance 2 tr_kepler \<and>
   ref_balance 2 tr_kepler = 1 \<and> held 2 qs_kepler = 1"
proof -
  have u: "nvk_queue_state_update dev_kepler None qs_kepler tr_kepler =
     Inr (VK_SUCCESS, qs_kepler,
          tr_kepler @ [GetBoRef Images (Some 1), BoDestroy 1, GetBoRef Samplers (Some 2),
                       BoDestroy 2, GetBoRef Slm (Some 3), BoDestroy 3])"
    by (simp add: update_clean [OF settled_kepler] sync_events_kepler)
  note t = update_releases_references [of dev_kepler qs_kepler tr_kepler _ _ _ _ None]
  from t differ_kepler_parts(2)
  have s: "samplers (provider_slots dev_kepler qs_kepler) = samplers qs_kepler"
    by blast
  from t u settled_kepler
  have r: "ref_balance 2 (tr_kepler @ [GetBoRef Images (Some 1), BoDestroy 1,
                               GetBoRef Samplers (Some 2), BoDestroy 2,
                               GetBoRef Slm (Some 3), BoDestroy 3]) = ref_balance 2 tr_kepler"
    by blast
  from u s r differ_kepler_parts settled_kepler ref_balance_kepler show ?thesis
    by blast
qed

subsection \<open>The push-buffer slot after a failed allocation\<close>

lemma ucast_32_64_inj:
  assumes "(ucast (x :: 32 word) :: 64 word) = ucast y"
  shows "x = y"
proof -
  have u: "unat (ucast z :: 64 word) = unat z" for z :: "32 word"
  proof -
    have "unat z < 2 ^ 32"
      using unsigned_less [of z] by simp
    also have "(2::nat) ^ 32 < 2 ^ 64"
      by simp
    finally show ?thesis
      by (simp add: unsigned_ucast_eq take_bit_nat_eq_self)
  qed
  from assms have "unat (ucast x :: 64 word) = unat (ucast y :: 64 word)"
    by simp
  then show ?thesis
    by (simp add: u word_unat_eq_iff)
qed

lemma vals_append: "vals c m (p @ q) = vals c m p @ vals c m q"
  by (induction p) simp_all

lemma vals_windows:
  "vals NVA0C0 SET_TEX_HEADER_POOL_B (push_windows dev) = []"
  "vals NVA0C0 SET_TEX_HEADER_POOL_C (push_windows dev) = []"
  "vals NVA0C0 SET_TEX_SAMPLER_POOL_B (push_windows dev) = []"
  "vals NVA0C0 SET_TEX_SAMPLER_POOL_C (push_windows dev) = []"
  "vals NVA0C0 SET_SHADER_LOCAL_MEMORY_B (push_windows dev) = []"
  "vals NVA0C0 SET_SHADER_LOCAL_MEMORY_NON_THROTTLED_B (push_windows dev) = []"
  "vals NV9097 SET_SHADER_LOCAL_MEMORY_D (push_windows dev) = []"
  "vals NV9097 SET_SHADER_LOCAL_MEMORY_E (push_windows dev) = []"
  by (simp_all add: push_windows_def)

lemma vals_images:
  "vals NVA0C0 SET_TEX_HEADER_POOL_B (push_images dev qs []) =
     (case tbl_bo (images qs) of None \<Rightarrow> [] | Some b \<Rightarrow> [bo_offset (bos dev b)])"
  "vals NVA0C0 SET_TEX_HEADER_POOL_C (push_images dev qs []) =
     (case tbl_bo (images qs) of None \<Rightarrow> [] | Some b \<Rightarrow> [ucast (alloc_count (images qs) - 1)])"
  "vals NVA0C0 SET_TEX_SAMPLER_POOL_B (push_images dev qs []) = []"
  "vals NVA0C0 SET_TEX_SAMPLER_POOL_C (push_images dev qs []) = []"
  "vals NVA0C0 SET_SHADER_LOCAL_MEMORY_B (push_images dev qs []) = []"
  "vals NVA0C0 SET_SHADER_LOCAL_MEMORY_NON_THROTTLED_B (push_images dev qs []) = []"
  "vals NV9097 SET_SHADER_LOCAL_MEMORY_D (push_images dev qs []) = []"
  "vals NV9097 SET_SHADER_LOCAL_MEMORY_E (push_images dev qs []) = []"
  by (simp_all add: push_images_def split: option.splits)

lemma vals_samplers:
  "vals NVA0C0 SET_TEX_HEADER_POOL_B (push_samplers dev qs p) =
     vals NVA0C0 SET_TEX_HEADER_POOL_B p"
  "vals NVA0C0 SET_TEX_HEADER_POOL_C (push_samplers dev qs p) =
     vals NVA0C0 SET_TEX_HEADER_POOL_C p"
  "vals NVA0C0 SET_TEX_SAMPLER_POOL_B (push_samplers dev qs p) =
     vals NVA0C0 SET_TEX_SAMPLER_POOL_B p @
     (case tbl_bo (samplers qs) of None \<Rightarrow> [] | Some b \<Rightarrow> [bo_offset (bos dev b)])"
  "vals NVA0C0 SET_TEX_SAMPLER_POOL_C (push_samplers dev qs p) =
     vals NVA0C0 SET_TEX_SAMPLER_POOL_C p @
     (case tbl_bo (samplers qs) of None \<Rightarrow> []
      | Some b \<Rightarrow> [ucast (alloc_count (samplers qs) - 1)])"
  "vals NVA0C0 SET_SHADER_LOCAL_MEMORY_B (push_samplers dev qs p) =
     vals NVA0C0 SET_SHADER_LOCAL_MEMORY_B p"
  "vals NVA0C0 SET_SHADER_LOCAL_MEMORY_NON_THROTTLED_B (push_samplers dev qs p) =
     vals NVA0C0 SET_SHADER_LOCAL_MEMORY_NON_THROTTLED_B p"
  "vals NV9097 SET_SHADER_LOCAL_MEMORY_D (push_samplers dev qs p) =
     vals NV9097 SET_SHADER_LOCAL_MEMORY_D p"
  "vals NV9097 SET_SHADER_LOCAL_MEMORY_E (push_samplers dev qs p) =
     vals NV9097 SET_SHADER_LOCAL_MEMORY_E p"
  by (simp_all add: push_samplers_def vals_append split: option.splits)

lemma vals_slm:
  assumes "push_slm dev qs p = Inr p'"
  shows
  "vals NVA0C0 SET_TEX_HEADER_POOL_B p' = vals NVA0C0 SET_TEX_HEADER_POOL_B p"
  "vals NVA0C0 SET_TEX_HEADER_POOL_C p' = vals NVA0C0 SET_TEX_HEADER_POOL_C p"
  "vals NVA0C0 SET_TEX_SAMPLER_POOL_B p' = vals NVA0C0 SET_TEX_SAMPLER_POOL_B p"
  "vals NVA0C0 SET_TEX_SAMPLER_POOL_C p' = vals NVA0C0 SET_TEX_SAMPLER_POOL_C p"
  "vals NVA0C0 SET_SHADER_LOCAL_MEMORY_B p' =
     vals NVA0C0 SET_SHADER_LOCAL_MEMORY_B p @
     (case slm_bo (slm qs) of None \<Rightarrow> [] | Some b \<Rightarrow> [bo_offset (bos dev b)])"
  "vals NVA0C0 SET_SHADER_LOCAL_MEMORY_NON_THROTTLED_B p' =
     vals NVA0C0 SET_SHADER_LOCAL_MEMORY_NON_THROTTLED_B p @
     (case slm_bo (slm qs) of None \<Rightarrow> [] | Some b \<Rightarrow> [ucast (bytes_per_tpc (slm qs))])"
  "vals NV9097 SET_SHADER_LOCAL_MEMORY_D p' =
     vals NV9097 SET_SHADER_LOCAL_MEMORY_D p @
     (case slm_bo (slm qs) of None \<Rightarrow> [] | Some b \<Rightarrow> [bo_size (bos dev b)])"
  "vals NV9097 SET_SHADER_LOCAL_MEMORY_E p' =
     vals NV9097 SET_SHADER_LOCAL_MEMORY_E p @
     (case slm_bo (slm qs) of None \<Rightarrow> [] | Some b \<Rightarrow> [ucast (bytes_per_warp (slm qs))])"
  using assms
  by (auto simp: push_slm_def Let_def vals_append split: option.splits if_splits)

lemma encode_vals:
  assumes "encode_state dev qs = Inr p"
  shows
  "vals NVA0C0 SET_TEX_HEADER_POOL_B p =
     (case tbl_bo (images qs) of None \<Rightarrow> [] | Some b \<Rightarrow> [bo_offset (bos dev b)])"
  "vals NVA0C0 SET_TEX_HEADER_POOL_C p =
     (case tbl_bo (images qs) of None \<Rightarrow> [] | Some b \<Rightarrow> [ucast (alloc_count (images qs) - 1)])"
  "vals NVA0C0 SET_TEX_SAMPLER_POOL_B p =
     (case tbl_bo (samplers qs) of None \<Rightarrow> [] | Some b \<Rightarrow> [bo_offset (bos dev b)])"
  "vals NVA0C0 SET_TEX_SAMPLER_POOL_C p =
     (case tbl_bo (samplers qs) of None \<Rightarrow> []
      | Some b \<Rightarrow> [ucast (alloc_count (samplers qs) - 1)])"
  "vals NVA0C0 SET_SHADER_LOCAL_MEMORY_B p =
     (case slm_bo (slm qs) of None \<Rightarrow> [] | Some b \<Rightarrow> [bo_offset (bos dev b)])"
  "vals NVA0C0 SET_SHADER_LOCAL_MEMORY_NON_THROTTLED_B p =
     (case slm_bo (slm qs) of None \<Rightarrow> [] | Some b \<Rightarrow> [ucast (bytes_per_tpc (slm qs))])"
  "vals NV9097 SET_SHADER_LOCAL_MEMORY_D p =
     (case slm_bo (slm qs) of None \<Rightarrow> [] | Some b \<Rightarrow> [bo_size (bos dev b)])"
  "vals NV9097 SET_SHADER_LOCAL_MEMORY_E p =
     (case slm_bo (slm qs) of None \<Rightarrow> [] | Some b \<Rightarrow> [ucast (bytes_per_warp (slm qs))])"
proof -
  from encode_state_Inr_D [OF assms] obtain p' where
    s: "push_slm dev qs (push_samplers dev qs (push_images dev qs [])) = Inr p'"
    and p: "p = p' @ push_windows dev" by blast
  note v = vals_slm [OF s]
  show
  "vals NVA0C0 SET_TEX_HEADER_POOL_B p =
     (case tbl_bo (images qs) of None \<Rightarrow> [] | Some b \<Rightarrow> [bo_offset (bos dev b)])"
  "vals NVA0C0 SET_TEX_HEADER_POOL_C p =
     (case tbl_bo (images qs) of None \<Rightarrow> [] | Some b \<Rightarrow> [ucast (alloc_count (images qs) - 1)])"
  "vals NVA0C0 SET_TEX_SAMPLER_POOL_B p =
     (case tbl_bo (samplers qs) of None \<Rightarrow> [] | Some b \<Rightarrow> [bo_offset (bos dev b)])"
  "vals NVA0C0 SET_TEX_SAMPLER_POOL_C p =
     (case tbl_bo (samplers qs) of None \<Rightarrow> []
      | Some b \<Rightarrow> [ucast (alloc_count (samplers qs) - 1)])"
  "vals NVA0C0 SET_SHADER_LOCAL_MEMORY_B p =
     (case slm_bo (slm qs) of None \<Rightarrow> [] | Some b \<Rightarrow> [bo_offset (bos dev b)])"
  "vals NVA0C0 SET_SHADER_LOCAL_MEMORY_NON_THROTTLED_B p =
     (case slm_bo (slm qs) of None \<Rightarrow> [] | Some b \<Rightarrow> [ucast (bytes_per_tpc (slm qs))])"
  "vals NV9097 SET_SHADER_LOCAL_MEMORY_D p =
     (case slm_bo (slm qs) of None \<Rightarrow> [] | Some b \<Rightarrow> [bo_size (bos dev b)])"
  "vals NV9097 SET_SHADER_LOCAL_MEMORY_E p =
     (case slm_bo (slm qs) of None \<Rightarrow> [] | Some b \<Rightarrow> [ucast (bytes_per_warp (slm qs))])"
    by (simp_all only: p vals_append v vals_windows vals_samplers vals_images append_Nil
          append_Nil2)
qed

lemma ucast_32_64_eq_iff: "(ucast (x :: 32 word) :: 64 word) = ucast y \<longleftrightarrow> x = y"
  using ucast_32_64_inj [of x y] by auto

lemma views_from_encoding:
  assumes "encode_state dev q1 = Inr p" and "encode_state dev q2 = Inr p"
  shows "encoded_values dev q1 = encoded_values dev q2"
proof -
  note a = encode_vals [OF assms(1)]
  note b = encode_vals [OF assms(2)]
  have i: "images_view dev q1 = images_view dev q2"
    using a(1,2) b(1,2)
    by (auto simp: images_view_def ucast_32_64_eq_iff split: option.splits)
  have s: "samplers_view dev q1 = samplers_view dev q2"
    using a(3,4) b(3,4)
    by (auto simp: samplers_view_def ucast_32_64_eq_iff split: option.splits)
  have l: "slm_view dev q1 = slm_view dev q2"
    using a(5-8) b(5-8)
    by (auto simp: slm_view_def ucast_32_64_eq_iff split: option.splits)
  from i s l show ?thesis
    by (simp add: encoded_values_def)
qed

lemma encoding_from_views:
  assumes "encoded_values dev q1 = encoded_values dev q2"
  shows "encode_state dev q1 = encode_state dev q2"
proof -
  from assms have i: "images_view dev q1 = images_view dev q2"
    and s: "samplers_view dev q1 = samplers_view dev q2"
    and l: "slm_view dev q1 = slm_view dev q2"
    by (simp_all add: encoded_values_def)
  have 1: "push_images dev q1 p = push_images dev q2 p" for p
    using i by (auto simp: images_view_def push_images_def split: option.splits)
  have 2: "push_samplers dev q1 p = push_samplers dev q2 p" for p
    using s by (auto simp: samplers_view_def push_samplers_def split: option.splits)
  have 3: "push_slm dev q1 p = push_slm dev q2 p" for p
    using l by (auto simp: slm_view_def push_slm_def Let_def split: option.splits)
  show ?thesis
    by (simp add: encode_state_def 1 2 3)
qed

lemma push_encodes_iff_values:
  assumes "push_encodes dev qs" and "push q = push qs"
  shows "push_encodes dev q \<longleftrightarrow> encoded_values dev q = encoded_values dev qs"
proof
  assume "push_encodes dev q"
  with assms have "encode_state dev q = Inr (bo_map (push qs))"
    "encode_state dev qs = Inr (bo_map (push qs))"
    by (simp_all add: push_encodes_def)
  then show "encoded_values dev q = encoded_values dev qs"
    by (rule views_from_encoding)
next
  assume "encoded_values dev q = encoded_values dev qs"
  then have "encode_state dev q = encode_state dev qs"
    by (rule encoding_from_views)
  with assms show "push_encodes dev q"
    by (simp add: push_encodes_def)
qed

lemma encode_ignores_images_provider:
  "encode_state (dev\<lparr>dev_images := x\<rparr>) q = encode_state dev q"
proof -
  have "push_images (dev\<lparr>dev_images := x\<rparr>) q p = push_images dev q p" for p
    by (simp add: push_images_def split: option.splits)
  moreover have "push_samplers (dev\<lparr>dev_images := x\<rparr>) q p = push_samplers dev q p" for p
    by (simp add: push_samplers_def split: option.splits)
  moreover have "push_slm (dev\<lparr>dev_images := x\<rparr>) q p = push_slm dev q p" for p
    by (simp add: push_slm_def Let_def split: option.splits)
  moreover have "push_windows (dev\<lparr>dev_images := x\<rparr>) = push_windows dev"
    by (simp add: push_windows_def)
  ultimately show ?thesis
    by (simp add: encode_state_def split: sum.splits)
qed

lemma encodes_kepler_grown: "push_encodes dev_grown qs_kepler"
proof -
  have "encode_state dev_grown qs_kepler = Inr push_kepler"
    by (simp add: dev_grown_def encode_ignores_images_provider qs_kepler_def
          encodes_after_push_store encode_kepler)
  then show ?thesis
    by (simp add: push_encodes_def qs_kepler_def)
qed

lemma differ_grown: "slots_differ dev_grown qs_kepler"
  by (simp add: slots_differ_def images_differ_def dev_grown_def dev_kepler_def qs_kepler_def
        provider_slots_def)

lemma sync_events_grown:
  "sync_events dev_grown qs_kepler =
     [GetBoRef Images (Some 1), BoDestroy 1, GetBoRef Samplers (Some 2), BoDestroy 2,
      GetBoRef Slm (Some 3), BoDestroy 3]"
  by (simp add: sync_events_def slot_events_def images_differ_def samplers_differ_def
        slm_differ_def dev_grown_def dev_kepler_def qs_kepler_def provider_slots_def)

lemma images_grown:
  "tbl_bo (images qs_kepler) \<noteq> None" "fst (dev_images dev_grown) \<noteq> None"
  "snd (dev_images dev_grown) \<noteq> alloc_count (images qs_kepler)"
  "alloc_count (images qs_kepler) = 10"
  "alloc_count (images (provider_slots dev_grown qs_kepler)) = 20"
  by (simp_all add: dev_grown_def dev_kepler_def qs_kepler_def provider_slots_def)

text \<open>
  C10, as stated, fails in its last clause: the image slot holds no buffer object and
  the provider answers no buffer object with another entry count. The slot differs, the
  allocation fails, the slot takes the new count, and the push buffer that was kept
  encodes the new slot values as it encoded the old ones, since a slot without a buffer
  object contributes no command.
\<close>

theorem stale_push_counterexample:
  "slots_differ dev_counts qs_counts \<and>
   push_encodes dev_counts qs_counts \<and>
   nvk_queue_state_update dev_counts None qs_counts [] =
     Inr (VK_ERROR_OUT_OF_DEVICE_MEMORY,
          qs_counts\<lparr>images := \<lparr>tbl_bo = None, alloc_count = 6\<rparr>\<rparr>,
          [GetBoRef Images None, GetBoRef Samplers None, GetBoRef Slm None,
           BoNewMapped 1024 None]) \<and>
   push_encodes dev_counts (qs_counts\<lparr>images := \<lparr>tbl_bo = None, alloc_count = 6\<rparr>\<rparr>)"
proof -
  have d: "slots_differ dev_counts qs_counts"
    by (simp add: slots_differ_def images_differ_def dev_counts_def qs_counts_def)
  have e: "push_encodes dev_counts qs_counts"
    by (simp add: push_encodes_def encode_state_def push_slm_def push_samplers_def
          push_images_def push_windows_def dev_counts_def qs_counts_def VOLTA_COMPUTE_A_def
          nv_push_dw_count_def)
  have p: "provider_slots dev_counts qs_counts =
           qs_counts\<lparr>images := \<lparr>tbl_bo = None, alloc_count = 6\<rparr>\<rparr>"
    by (simp add: provider_slots_def dev_counts_def qs_counts_def)
  have s: "sync_events dev_counts qs_counts =
           [GetBoRef Images None, GetBoRef Samplers None, GetBoRef Slm None]"
    by (simp add: sync_events_def slot_events_def images_differ_def samplers_differ_def
          slm_differ_def dev_counts_def qs_counts_def)
  have u: "nvk_queue_state_update dev_counts None qs_counts [] =
     Inr (VK_ERROR_OUT_OF_DEVICE_MEMORY,
          qs_counts\<lparr>images := \<lparr>tbl_bo = None, alloc_count = 6\<rparr>\<rparr>,
          [GetBoRef Images None, GetBoRef Samplers None, GetBoRef Slm None,
           BoNewMapped 1024 None])"
    using update_oom [OF d, of "[]"] by (simp add: p s)
  have e': "push_encodes dev_counts (qs_counts\<lparr>images := \<lparr>tbl_bo = None, alloc_count = 6\<rparr>\<rparr>)"
    by (simp add: push_encodes_def encode_state_def push_slm_def push_samplers_def
          push_images_def push_windows_def dev_counts_def qs_counts_def VOLTA_COMPUTE_A_def
          nv_push_dw_count_def)
  from d e u e' show ?thesis
    by blast
qed

lemma stale_when_values_change:
  assumes "push_encodes dev qs"
    and "(fst (dev_images dev) \<noteq> None \<and>
            (tbl_bo (images qs) = None \<or> snd (dev_images dev) \<noteq> alloc_count (images qs))) \<or>
         (fst (dev_samplers dev) \<noteq> None \<and>
            (tbl_bo (samplers qs) = None \<or>
             snd (dev_samplers dev) \<noteq> alloc_count (samplers qs))) \<or>
         (fst (dev_slm dev) \<noteq> None \<and>
            (slm_bo (slm qs) = None \<or> fst (snd (dev_slm dev)) \<noteq> bytes_per_warp (slm qs) \<or>
             snd (snd (dev_slm dev)) \<noteq> bytes_per_tpc (slm qs))) \<or>
         (fst (dev_images dev) = None \<and> tbl_bo (images qs) \<noteq> None) \<or>
         (fst (dev_samplers dev) = None \<and> tbl_bo (samplers qs) \<noteq> None) \<or>
         (fst (dev_slm dev) = None \<and> slm_bo (slm qs) \<noteq> None)"
  shows "\<not> push_encodes dev (provider_slots dev qs)"
proof
  assume "push_encodes dev (provider_slots dev qs)"
  with push_encodes_iff_values [OF assms(1) push_of_provider_slots [of dev qs]]
  have "encoded_values dev (provider_slots dev qs) = encoded_values dev qs"
    by simp
  then have i: "images_view dev (provider_slots dev qs) = images_view dev qs"
    and s: "samplers_view dev (provider_slots dev qs) = samplers_view dev qs"
    and l: "slm_view dev (provider_slots dev qs) = slm_view dev qs"
    by (simp_all add: encoded_values_def)
  from i have i': "\<not> (fst (dev_images dev) \<noteq> None \<and>
            (tbl_bo (images qs) = None \<or> snd (dev_images dev) \<noteq> alloc_count (images qs)))"
      "\<not> (fst (dev_images dev) = None \<and> tbl_bo (images qs) \<noteq> None)"
    by (auto simp: images_view_def provider_slots_def split: option.splits)
  from s have s': "\<not> (fst (dev_samplers dev) \<noteq> None \<and>
            (tbl_bo (samplers qs) = None \<or>
             snd (dev_samplers dev) \<noteq> alloc_count (samplers qs)))"
      "\<not> (fst (dev_samplers dev) = None \<and> tbl_bo (samplers qs) \<noteq> None)"
    by (auto simp: samplers_view_def provider_slots_def split: option.splits)
  from l have l': "\<not> (fst (dev_slm dev) \<noteq> None \<and>
            (slm_bo (slm qs) = None \<or> fst (snd (dev_slm dev)) \<noteq> bytes_per_warp (slm qs) \<or>
             snd (snd (dev_slm dev)) \<noteq> bytes_per_tpc (slm qs)))"
      "\<not> (fst (dev_slm dev) = None \<and> slm_bo (slm qs) \<noteq> None)"
    by (auto simp: slm_view_def provider_slots_def split: option.splits)
  from assms(2) i' s' l' show False
    by blast
qed

text \<open>
  C10, amended. When a slot differs and the allocation fails, the update returns
  \<open>VK_ERROR_OUT_OF_DEVICE_MEMORY\<close> with the push-buffer slot (buffer object, words,
  count) as it was, nothing unmapped, and the three resource slots holding what the
  providers answered. Only the successful path retires the old push buffer, after the
  allocation: its unmap and destroy events follow the \<open>BoNewMapped\<close> event. A push
  buffer that encoded the old slot values encodes the new ones exactly when every slot
  has the same encoded values as before: no buffer object before and after, or one
  before and after with the same address (and size, for the scratch area) and the same
  sizing metadata. So it is stale as soon as, for the image table, the sampler table or
  the scratch area, a buffer object appears, disappears, or is present with changed
  sizing metadata.
\<close>

theorem failed_allocation_keeps_old_push:
  assumes "slots_differ dev qs"
  shows "nvk_queue_state_update dev None qs tr =
           Inr (VK_ERROR_OUT_OF_DEVICE_MEMORY, provider_slots dev qs,
                tr @ sync_events dev qs @ [BoNewMapped 1024 None]) \<and>
         push (provider_slots dev qs) = push qs \<and>
         images (provider_slots dev qs) =
           \<lparr>tbl_bo = fst (dev_images dev), alloc_count = snd (dev_images dev)\<rparr> \<and>
         samplers (provider_slots dev qs) =
           \<lparr>tbl_bo = fst (dev_samplers dev), alloc_count = snd (dev_samplers dev)\<rparr> \<and>
         slm (provider_slots dev qs) =
           \<lparr>slm_bo = fst (dev_slm dev), bytes_per_warp = fst (snd (dev_slm dev)),
            bytes_per_tpc = snd (snd (dev_slm dev))\<rparr> \<and>
         (\<forall>b. BoUnmap b \<notin> set (sync_events dev qs @ [BoNewMapped 1024 None])) \<and>
         (\<forall>b p. encode_state dev (provider_slots dev qs) = Inr p \<longrightarrow>
            nvk_queue_state_update dev (Some b) qs tr =
              Inr (VK_SUCCESS,
                   (provider_slots dev qs)\<lparr>push := \<lparr>push_bo = Some b, bo_map = p,
                                                     dw_count = nv_push_dw_count p\<rparr>\<rparr>,
                   tr @ sync_events dev qs @ [BoNewMapped 1024 (Some b)] @
                     push_events (push_bo (push qs)))) \<and>
         (push_encodes dev qs \<longrightarrow>
            (push_encodes dev (provider_slots dev qs) \<longleftrightarrow>
             encoded_values dev (provider_slots dev qs) = encoded_values dev qs)) \<and>
         (push_encodes dev qs \<and>
          ((fst (dev_images dev) \<noteq> None \<and>
              (tbl_bo (images qs) = None \<or> snd (dev_images dev) \<noteq> alloc_count (images qs))) \<or>
           (fst (dev_samplers dev) \<noteq> None \<and>
              (tbl_bo (samplers qs) = None \<or>
               snd (dev_samplers dev) \<noteq> alloc_count (samplers qs))) \<or>
           (fst (dev_slm dev) \<noteq> None \<and>
              (slm_bo (slm qs) = None \<or> fst (snd (dev_slm dev)) \<noteq> bytes_per_warp (slm qs) \<or>
               snd (snd (dev_slm dev)) \<noteq> bytes_per_tpc (slm qs))) \<or>
           (fst (dev_images dev) = None \<and> tbl_bo (images qs) \<noteq> None) \<or>
           (fst (dev_samplers dev) = None \<and> tbl_bo (samplers qs) \<noteq> None) \<or>
           (fst (dev_slm dev) = None \<and> slm_bo (slm qs) \<noteq> None)) \<longrightarrow>
            \<not> push_encodes dev (provider_slots dev qs))"
proof (intro conjI allI impI)
  show "nvk_queue_state_update dev None qs tr =
           Inr (VK_ERROR_OUT_OF_DEVICE_MEMORY, provider_slots dev qs,
                tr @ sync_events dev qs @ [BoNewMapped 1024 None])"
    by (rule update_oom [OF assms])
  show "push (provider_slots dev qs) = push qs"
    by (rule push_of_provider_slots)
  show "BoUnmap b \<notin> set (sync_events dev qs @ [BoNewMapped 1024 None])" for b
    by (auto simp: sync_events_def slot_events_def split: option.splits if_splits)
  show "nvk_queue_state_update dev (Some b) qs tr =
              Inr (VK_SUCCESS,
                   (provider_slots dev qs)\<lparr>push := \<lparr>push_bo = Some b, bo_map = p,
                                                     dw_count = nv_push_dw_count p\<rparr>\<rparr>,
                   tr @ sync_events dev qs @ [BoNewMapped 1024 (Some b)] @
                     push_events (push_bo (push qs)))"
    if "encode_state dev (provider_slots dev qs) = Inr p" for b p
    by (rule update_rebuild [OF assms that])
  show "push_encodes dev (provider_slots dev qs) \<longleftrightarrow>
             encoded_values dev (provider_slots dev qs) = encoded_values dev qs"
    if "push_encodes dev qs"
    by (rule push_encodes_iff_values [OF that push_of_provider_slots])
  show "\<not> push_encodes dev (provider_slots dev qs)"
    if "push_encodes dev qs \<and>
          ((fst (dev_images dev) \<noteq> None \<and>
              (tbl_bo (images qs) = None \<or> snd (dev_images dev) \<noteq> alloc_count (images qs))) \<or>
           (fst (dev_samplers dev) \<noteq> None \<and>
              (tbl_bo (samplers qs) = None \<or>
               snd (dev_samplers dev) \<noteq> alloc_count (samplers qs))) \<or>
           (fst (dev_slm dev) \<noteq> None \<and>
              (slm_bo (slm qs) = None \<or> fst (snd (dev_slm dev)) \<noteq> bytes_per_warp (slm qs) \<or>
               snd (snd (dev_slm dev)) \<noteq> bytes_per_tpc (slm qs))) \<or>
           (fst (dev_images dev) = None \<and> tbl_bo (images qs) \<noteq> None) \<or>
           (fst (dev_samplers dev) = None \<and> tbl_bo (samplers qs) \<noteq> None) \<or>
           (fst (dev_slm dev) = None \<and> slm_bo (slm qs) \<noteq> None))"
    using that stale_when_values_change [of dev qs] by blast
qed (simp_all add: provider_slots_def)

text \<open>
  The image table of the sample device grows from 10 to 20 entries and the allocation
  fails: the slots hold the new count, the push buffer still encodes the old one.
\<close>

theorem failed_allocation_keeps_old_push_witness:
  "slots_differ dev_grown qs_kepler \<and> push_encodes dev_grown qs_kepler \<and>
   fst (dev_images dev_grown) \<noteq> None \<and>
   snd (dev_images dev_grown) \<noteq> alloc_count (images qs_kepler) \<and>
   nvk_queue_state_update dev_grown None qs_kepler tr_kepler =
     Inr (VK_ERROR_OUT_OF_DEVICE_MEMORY, provider_slots dev_grown qs_kepler,
          tr_kepler @ [GetBoRef Images (Some 1), BoDestroy 1, GetBoRef Samplers (Some 2),
                       BoDestroy 2, GetBoRef Slm (Some 3), BoDestroy 3,
                       BoNewMapped 1024 None]) \<and>
   push (provider_slots dev_grown qs_kepler) = push qs_kepler \<and>
   alloc_count (images qs_kepler) = 10 \<and>
   alloc_count (images (provider_slots dev_grown qs_kepler)) = 20 \<and>
   encoded_values dev_grown (provider_slots dev_grown qs_kepler) \<noteq>
     encoded_values dev_grown qs_kepler \<and>
   \<not> push_encodes dev_grown (provider_slots dev_grown qs_kepler)"
proof -
  note t = failed_allocation_keeps_old_push [OF differ_grown, of tr_kepler]
  from t have u: "nvk_queue_state_update dev_grown None qs_kepler tr_kepler =
     Inr (VK_ERROR_OUT_OF_DEVICE_MEMORY, provider_slots dev_grown qs_kepler,
          tr_kepler @ [GetBoRef Images (Some 1), BoDestroy 1, GetBoRef Samplers (Some 2),
                       BoDestroy 2, GetBoRef Slm (Some 3), BoDestroy 3,
                       BoNewMapped 1024 None])"
    by (simp add: sync_events_grown)
  from t have p: "push (provider_slots dev_grown qs_kepler) = push qs_kepler"
    by blast
  from t encodes_kepler_grown images_grown(2,3)
  have s: "\<not> push_encodes dev_grown (provider_slots dev_grown qs_kepler)"
    by blast
  with t encodes_kepler_grown
  have v: "encoded_values dev_grown (provider_slots dev_grown qs_kepler) \<noteq>
           encoded_values dev_grown qs_kepler"
    by blast
  from differ_grown encodes_kepler_grown u p s v images_grown(2-5) show ?thesis
    by blast
qed

end
